theory Spec2Isabelle
  imports Complex_Main "HOL-Library.Sublist" "HOL-Library.List_Lexorder" "HOL-Library.Char_ord"
begin

section \<open>The ledger read by the dashboard queries\<close>

text \<open>
  The queries of \<^verbatim>\<open>FINANCIAL.py\<close> are SQL texts run against five tables. The table
  declarations are not part of the repository, so the columns are taken as the queries
  use them: a transaction has an id, a raw type, a metadata text (nullable), two
  amounts, a timestamp, a status, a provider (nullable) and two nullable links; plans,
  investment plans, users and assets are looked up by their primary key, so each
  \<^verbatim>\<open>LEFT JOIN ... ON x.id = ...\<close> is a lookup in a partial map and never multiplies rows.
  A SQL NULL is \<open>None\<close>.

  Timestamps are seconds since an epoch, dates are days since the same epoch. The
  window parameters are passed as the strings \<^verbatim>\<open>str(start_date)\<close>, \<^verbatim>\<open>str(end_date)\<close>:
  compared with a timestamp they denote midnight of that date, compared with
  \<^verbatim>\<open>DATE(...)\<close> they denote the date itself.

  Each loader catches every exception of its query and returns an empty frame when the
  connection or the query fails. The definitions below are the result of a query that
  runs; the ledger is then the only input besides the window.
\<close>

type_synonym timestamp = nat
type_synonym date = nat

record txn =
  t_id :: nat
  t_tx_type :: string
  t_metadata :: "string option"
  t_amount :: rat
  t_usd_amount :: rat
  t_updated_at :: timestamp
  t_status :: string
  t_provider_number :: "string option"
  t_investment_plan_id :: "nat option"
  t_plan_id :: "nat option"

record plan =
  p_user_id :: "nat option"
  p_plan_option :: "string option"

record investment_plan =
  ip_user_id :: "nat option"
  ip_plan_option :: "string option"
  ip_asset_id :: "nat option"

record asset =
  a_name :: "string option"

record user =
  u_restricted :: "bool option"

record db =
  transactions :: "txn list"
  investment_plans :: "nat \<rightharpoonup> investment_plan"
  plans :: "nat \<rightharpoonup> plan"
  users :: "nat \<rightharpoonup> user"
  assets :: "nat \<rightharpoonup> asset"

subsection \<open>Dates and the window test\<close>

definition DATE :: "timestamp \<Rightarrow> date" where
  "DATE ts = ts div 86400"

definition midnight :: "date \<Rightarrow> timestamp" where
  "midnight d = d * 86400"

text \<open>\<^verbatim>\<open>ts BETWEEN :start_date AND :end_date\<close> on a timestamp column.\<close>

definition between_ts :: "timestamp \<Rightarrow> date \<Rightarrow> date \<Rightarrow> bool" where
  "between_ts ts s e \<longleftrightarrow> midnight s \<le> ts \<and> ts \<le> midnight e"

text \<open>\<^verbatim>\<open>DATE(ts) BETWEEN :start_date AND :end_date\<close>.\<close>

definition between_date :: "timestamp \<Rightarrow> date \<Rightarrow> date \<Rightarrow> bool" where
  "between_date ts s e \<longleftrightarrow> s \<le> DATE ts \<and> DATE ts \<le> e"

subsection \<open>The joins shared by every query\<close>

definition join_ip :: "db \<Rightarrow> txn \<Rightarrow> investment_plan option" where
  "join_ip d t = Option.bind (t_investment_plan_id t) (investment_plans d)"

definition join_p :: "db \<Rightarrow> txn \<Rightarrow> plan option" where
  "join_p d t = Option.bind (t_plan_id t) (plans d)"

text \<open>\<^verbatim>\<open>COALESCE(p.user_id, ip.user_id)\<close>\<close>

definition coalesce_user_id :: "db \<Rightarrow> txn \<Rightarrow> nat option" where
  "coalesce_user_id d t =
     (case Option.bind (join_p d t) p_user_id of
        Some uid \<Rightarrow> Some uid
      | None \<Rightarrow> Option.bind (join_ip d t) ip_user_id)"

definition join_u :: "db \<Rightarrow> txn \<Rightarrow> user option" where
  "join_u d t = Option.bind (coalesce_user_id d t) (users d)"

text \<open>\<^verbatim>\<open>u.id\<close>: the key of the joined user row, NULL when no user row joined.\<close>

definition u_id :: "db \<Rightarrow> txn \<Rightarrow> nat option" where
  "u_id d t = (case join_u d t of None \<Rightarrow> None | Some u \<Rightarrow> coalesce_user_id d t)"

definition join_a :: "db \<Rightarrow> txn \<Rightarrow> asset option" where
  "join_a d t = Option.bind (Option.bind (join_ip d t) ip_asset_id) (assets d)"

text \<open>
  \<^verbatim>\<open>CASE WHEN t.investment_plan_id IS NOT NULL THEN a.name
       WHEN t.plan_id IS NOT NULL THEN p.plan_option ELSE NULL END\<close>
\<close>

definition asset_type_of :: "db \<Rightarrow> txn \<Rightarrow> string option" where
  "asset_type_of d t =
     (if t_investment_plan_id t \<noteq> None then Option.bind (join_a d t) a_name
      else if t_plan_id t \<noteq> None then Option.bind (join_p d t) p_plan_option
      else None)"

subsection \<open>The transaction classifier\<close>

text \<open>
  \<^verbatim>\<open>t.metadata::text ILIKE '%Monthly maintenance fee deduction%'\<close>: the pattern has no
  wildcard between its two \<^verbatim>\<open>%\<close>, so the test is whether the text contains the marker,
  letters compared without case. Case folding is that of the ASCII letters.
\<close>

definition ascii_upper :: string where
  "ascii_upper = ''ABCDEFGHIJKLMNOPQRSTUVWXYZ''"

definition ascii_lower :: string where
  "ascii_lower = ''abcdefghijklmnopqrstuvwxyz''"

definition lower_char :: "char \<Rightarrow> char" where
  "lower_char c = (case map_of (zip ascii_upper ascii_lower) c of Some l \<Rightarrow> l | None \<Rightarrow> c)"

fun contains :: "string \<Rightarrow> string \<Rightarrow> bool" where
  "contains pat [] = (pat = [])"
| "contains pat (c # cs) = (prefix pat (c # cs) \<or> contains pat cs)"

definition ilike_contains :: "string \<Rightarrow> string \<Rightarrow> bool" where
  "ilike_contains txt pat = contains (map lower_char pat) (map lower_char txt)"

definition maintenance_marker :: string where
  "maintenance_marker = ''Monthly maintenance fee deduction''"

definition has_marker :: "txn \<Rightarrow> bool" where
  "has_marker t =
     (case t_metadata t of None \<Rightarrow> False | Some m \<Rightarrow> ilike_contains m maintenance_marker)"

text \<open>
  \<^verbatim>\<open>CASE WHEN t.metadata::text ILIKE '%...%' THEN 'maintenance_fee' ELSE t.tx_type END\<close>;
  a NULL metadata makes the test NULL and the \<^verbatim>\<open>ELSE\<close> branch is taken.
\<close>

definition transaction_type_of :: "txn \<Rightarrow> string" where
  "transaction_type_of t = (if has_marker t then ''maintenance_fee'' else t_tx_type t)"

subsection \<open>SQL aggregates\<close>

text \<open>\<^verbatim>\<open>MIN\<close> over a group: NULL on no rows.\<close>

fun sql_min :: "nat list \<Rightarrow> nat option" where
  "sql_min [] = None"
| "sql_min (x # xs) = (case sql_min xs of None \<Rightarrow> Some x | Some m \<Rightarrow> Some (min x m))"

text \<open>\<^verbatim>\<open>COUNT(*) FILTER (WHERE P)\<close>\<close>

definition count_where :: "('r \<Rightarrow> bool) \<Rightarrow> 'r list \<Rightarrow> nat" where
  "count_where P rows = length (filter P rows)"

text \<open>\<^verbatim>\<open>SUM(f) FILTER (WHERE P)\<close>: NULL when no row passes the filter.\<close>

definition sum_where :: "('r \<Rightarrow> rat) \<Rightarrow> ('r \<Rightarrow> bool) \<Rightarrow> 'r list \<Rightarrow> rat option" where
  "sum_where f P rows =
     (if filter P rows = [] then None else Some (sum_list (map f (filter P rows))))"

text \<open>
  \<^verbatim>\<open>AVG(f) FILTER (WHERE P)\<close>: NULL when no row passes the filter, so no division by 0.
  The quotient is exact here; PostgreSQL rounds it to the scale it selects.
\<close>

definition avg_where :: "('r \<Rightarrow> rat) \<Rightarrow> ('r \<Rightarrow> bool) \<Rightarrow> 'r list \<Rightarrow> rat option" where
  "avg_where f P rows =
     (if filter P rows = [] then None
      else Some (sum_list (map f (filter P rows)) / of_nat (length (filter P rows))))"

text \<open>
  The values counted by \<^verbatim>\<open>COUNT(DISTINCT f) FILTER (WHERE P)\<close>: the distinct non-NULL
  values of \<open>f\<close> over the rows that pass the filter.
\<close>

definition distinct_where :: "('r \<Rightarrow> 'a option) \<Rightarrow> ('r \<Rightarrow> bool) \<Rightarrow> 'r list \<Rightarrow> 'a list" where
  "distinct_where f P rows = remdups (List.map_filter f (filter P rows))"

definition count_distinct_where :: "('r \<Rightarrow> 'a option) \<Rightarrow> ('r \<Rightarrow> bool) \<Rightarrow> 'r list \<Rightarrow> nat" where
  "count_distinct_where f P rows = length (distinct_where f P rows)"

definition coalesce :: "'a option \<Rightarrow> 'a \<Rightarrow> 'a" where
  "coalesce v dflt = (case v of None \<Rightarrow> dflt | Some x \<Rightarrow> x)"

text \<open>Arithmetic with a nullable left operand: NULL stays NULL.\<close>

definition null_minus :: "rat option \<Rightarrow> rat \<Rightarrow> rat option" where
  "null_minus a b = (case a of None \<Rightarrow> None | Some x \<Rightarrow> Some (x - b))"

definition null_times :: "rat option \<Rightarrow> rat \<Rightarrow> rat option" where
  "null_times a b = (case a of None \<Rightarrow> None | Some x \<Rightarrow> Some (x * b))"

subsection \<open>The CTEs of \<^verbatim>\<open>load_general_metrics\<close> and \<^verbatim>\<open>load_asset_metrics\<close>\<close>

text \<open>
  \<^verbatim>\<open>first_transactions\<close>: one row per value of \<^verbatim>\<open>COALESCE(p.user_id, ip.user_id)\<close> (NULL
  included) over the transactions with \<^verbatim>\<open>status = 'success'\<close>.
\<close>

definition first_transactions :: "db \<Rightarrow> (nat option \<times> timestamp option) list" where
  "first_transactions d =
     map (\<lambda>k. (k, sql_min (map t_updated_at
                  (filter (\<lambda>t. t_status t = ''success'' \<and> coalesce_user_id d t = k)
                     (transactions d)))))
       (remdups (map (coalesce_user_id d)
          (filter (\<lambda>t. t_status t = ''success'') (transactions d))))"

text \<open>\<^verbatim>\<open>LEFT JOIN first_transactions ft ON ft.user_id = u.id\<close>, read at \<^verbatim>\<open>ft.first_transaction_date\<close>.\<close>

definition join_ft :: "db \<Rightarrow> txn \<Rightarrow> timestamp option" where
  "join_ft d t =
     (case u_id d t of
        None \<Rightarrow> None
      | Some uid \<Rightarrow> Option.bind (map_of (first_transactions d) (Some uid)) (\<lambda>v. v))"

text \<open>
  The columns of \<^verbatim>\<open>base_data\<close> that the aggregates read. (The others, customer name,
  cohorts, week number, exchange rate, maturity dates, are selected and never used.)
\<close>

record base_row =
  transaction_id :: nat
  transaction_type :: string
  asset_type :: "string option"
  customer_id :: "nat option"
  first_transaction_date :: "timestamp option"
  transaction_date :: timestamp
  ghs_amount :: rat
  usd_amount :: rat

text \<open>
  \<^verbatim>\<open>WHERE t.status = 'success' AND u.restricted = 'false' AND t.provider_number != 'Flex Dollar'\<close>;
  a comparison with NULL is not true, so a row with no user, a NULL flag or a NULL
  provider is dropped.
\<close>

definition base_where :: "db \<Rightarrow> txn \<Rightarrow> bool" where
  "base_where d t \<longleftrightarrow>
     t_status t = ''success''
     \<and> Option.bind (join_u d t) u_restricted = Some False
     \<and> (case t_provider_number t of None \<Rightarrow> False | Some pr \<Rightarrow> pr \<noteq> ''Flex Dollar'')"

definition base_row_of :: "db \<Rightarrow> txn \<Rightarrow> base_row" where
  "base_row_of d t =
     \<lparr> transaction_id = t_id t,
       transaction_type = transaction_type_of t,
       asset_type = asset_type_of d t,
       customer_id = u_id d t,
       first_transaction_date = join_ft d t,
       transaction_date = t_updated_at t,
       ghs_amount = t_amount t,
       usd_amount = t_usd_amount t \<rparr>"

definition base_data :: "db \<Rightarrow> base_row list" where
  "base_data d = map (base_row_of d) (filter (base_where d) (transactions d))"

definition deposits :: "db \<Rightarrow> base_row list" where
  "deposits d = filter (\<lambda>r. transaction_type r = ''deposit'') (base_data d)"

definition withdrawals :: "db \<Rightarrow> base_row list" where
  "withdrawals d = filter (\<lambda>r. transaction_type r = ''withdrawal'') (base_data d)"

record ds_row =
  ds_customer_id :: "nat option"
  ds_deposit_count :: nat
  first_deposit_date :: "timestamp option"
  tx_days :: nat

record ds_asset_row = ds_row +
  ds_asset_type :: "string option"

text \<open>
  \<^verbatim>\<open>depositors_summary\<close> of \<^verbatim>\<open>load_general_metrics\<close>: \<^verbatim>\<open>FROM deposits GROUP BY customer_id\<close>.
  No window test is applied in this CTE.
\<close>

definition depositors_summary :: "db \<Rightarrow> ds_row list" where
  "depositors_summary d =
     map (\<lambda>c. \<lparr> ds_customer_id = c,
                ds_deposit_count = length (filter (\<lambda>r. customer_id r = c) (deposits d)),
                first_deposit_date =
                  sql_min (map transaction_date (filter (\<lambda>r. customer_id r = c) (deposits d))),
                tx_days =
                  length (remdups (map transaction_date
                    (filter (\<lambda>r. customer_id r = c) (deposits d)))) \<rparr>)
       (remdups (map customer_id (deposits d)))"

text \<open>
  \<^verbatim>\<open>depositors_summary\<close> of \<^verbatim>\<open>load_asset_metrics\<close>:
  \<^verbatim>\<open>FROM deposits GROUP BY customer_id, asset_type\<close>.
\<close>

definition depositors_summary_asset :: "db \<Rightarrow> ds_asset_row list" where
  "depositors_summary_asset d =
     map (\<lambda>(c, a).
            \<lparr> ds_customer_id = c,
              ds_deposit_count =
                length (filter (\<lambda>r. customer_id r = c \<and> asset_type r = a) (deposits d)),
              first_deposit_date =
                sql_min (map transaction_date
                  (filter (\<lambda>r. customer_id r = c \<and> asset_type r = a) (deposits d))),
              tx_days =
                length (remdups (map transaction_date
                  (filter (\<lambda>r. customer_id r = c \<and> asset_type r = a) (deposits d)))),
              ds_asset_type = a \<rparr>)
       (remdups (map (\<lambda>r. (customer_id r, asset_type r)) (deposits d)))"

subsection \<open>\<^verbatim>\<open>load_general_metrics\<close>\<close>

text \<open>
  \<^verbatim>\<open>LEFT JOIN depositors_summary ds USING (customer_id)\<close>: the summary has one row per
  customer, so the join adds its columns to the row of \<^verbatim>\<open>base_data\<close> (NULL when the
  customer has no row there, or when the customer id is NULL).
\<close>

definition join_ds :: "db \<Rightarrow> base_row \<Rightarrow> ds_row option" where
  "join_ds d r =
     find (\<lambda>s. customer_id r \<noteq> None \<and> ds_customer_id s = customer_id r)
       (depositors_summary d)"

text \<open>
  \<^verbatim>\<open>FROM base_data LEFT JOIN depositors_summary ds USING (customer_id)
  WHERE transaction_date BETWEEN :start_date AND :end_date\<close>
\<close>

definition general_from :: "db \<Rightarrow> date \<Rightarrow> date \<Rightarrow> (base_row \<times> ds_row option) list" where
  "general_from d s e =
     filter (\<lambda>j. between_ts (transaction_date (fst j)) s e)
       (map (\<lambda>r. (r, join_ds d r)) (base_data d))"

text \<open>The tests and columns of the aggregates, on a joined row.\<close>

definition is_type :: "string \<Rightarrow> base_row \<times> 'a \<Rightarrow> bool" where
  "is_type ty j \<longleftrightarrow> transaction_type (fst j) = ty"

definition bd_customer_id :: "base_row \<times> 'a \<Rightarrow> nat option" where
  "bd_customer_id j = customer_id (fst j)"

definition bd_asset_type :: "base_row \<times> 'a \<Rightarrow> string option" where
  "bd_asset_type j = asset_type (fst j)"

definition bd_ghs_amount :: "base_row \<times> 'a \<Rightarrow> rat" where
  "bd_ghs_amount j = ghs_amount (fst j)"

definition bd_usd_amount :: "base_row \<times> 'a \<Rightarrow> rat" where
  "bd_usd_amount j = usd_amount (fst j)"

text \<open>\<^verbatim>\<open>ds.customer_id\<close>\<close>

definition ds_customer :: "'b \<times> ('z ds_row_scheme) option \<Rightarrow> nat option" where
  "ds_customer j = Option.bind (snd j) ds_customer_id"

text \<open>\<^verbatim>\<open>tx_days > 1\<close>\<close>

definition is_recurring :: "'b \<times> ('z ds_row_scheme) option \<Rightarrow> bool" where
  "is_recurring j = (case snd j of None \<Rightarrow> False | Some s \<Rightarrow> tx_days s > 1)"

text \<open>\<^verbatim>\<open>tx_days = 1 AND DATE(first_deposit_date) BETWEEN :start_date AND :end_date\<close>\<close>

definition is_new :: "date \<Rightarrow> date \<Rightarrow> 'b \<times> ('z ds_row_scheme) option \<Rightarrow> bool" where
  "is_new st en j =
     (case snd j of
        None \<Rightarrow> False
      | Some s \<Rightarrow> tx_days s = 1
          \<and> (case first_deposit_date s of None \<Rightarrow> False | Some f \<Rightarrow> between_date f st en))"

record core_metrics =
  deposit_count :: nat
  deposit_value_ghs :: "rat option"
  deposit_value_usd :: "rat option"
  withdrawal_count :: nat
  withdrawal_value_ghs :: "rat option"
  withdrawal_value_usd :: "rat option"
  aum_ghs :: "rat option"
  aum_usd :: "rat option"
  total_depositors :: nat
  recurring_depositors :: nat
  new_depositors :: nat
  avg_deposit_value_ghs :: "rat option"
  avg_deposit_value_usd :: "rat option"
  avg_withdrawal_value_ghs :: "rat option"
  avg_withdrawal_value_usd :: "rat option"

record general_metrics = core_metrics +
  asset_type_count :: nat
  total_withdrawers :: nat

text \<open>The select list of the final query, over the rows of its \<^verbatim>\<open>FROM ... WHERE\<close>.\<close>

definition general_select ::
  "date \<Rightarrow> date \<Rightarrow> (base_row \<times> ds_row option) list \<Rightarrow> general_metrics" where
  "general_select st en rows =
     \<lparr> deposit_count = count_where (is_type ''deposit'') rows,
       deposit_value_ghs = sum_where bd_ghs_amount (is_type ''deposit'') rows,
       deposit_value_usd = sum_where bd_usd_amount (is_type ''deposit'') rows,
       withdrawal_count = count_where (is_type ''withdrawal'') rows,
       withdrawal_value_ghs = sum_where bd_ghs_amount (is_type ''withdrawal'') rows,
       withdrawal_value_usd = sum_where bd_usd_amount (is_type ''withdrawal'') rows,
       aum_ghs = null_minus (sum_where bd_ghs_amount (is_type ''deposit'') rows)
                   (coalesce (sum_where bd_ghs_amount (is_type ''withdrawal'') rows) 0),
       aum_usd = null_minus (sum_where bd_usd_amount (is_type ''deposit'') rows)
                   (coalesce (sum_where bd_usd_amount (is_type ''withdrawal'') rows) 0),
       total_depositors = count_distinct_where bd_customer_id (is_type ''deposit'') rows,
       recurring_depositors = count_distinct_where ds_customer is_recurring rows,
       new_depositors = count_distinct_where ds_customer (is_new st en) rows,
       avg_deposit_value_ghs = avg_where bd_ghs_amount (is_type ''deposit'') rows,
       avg_deposit_value_usd = avg_where bd_usd_amount (is_type ''deposit'') rows,
       avg_withdrawal_value_ghs = avg_where bd_ghs_amount (is_type ''withdrawal'') rows,
       avg_withdrawal_value_usd = avg_where bd_usd_amount (is_type ''withdrawal'') rows,
       asset_type_count = count_distinct_where bd_asset_type (\<lambda>j. True) rows,
       total_withdrawers = count_distinct_where bd_customer_id (is_type ''withdrawal'') rows \<rparr>"

text \<open>The query has no \<^verbatim>\<open>GROUP BY\<close>: its result is exactly one row.\<close>

definition load_general_metrics :: "db \<Rightarrow> date \<Rightarrow> date \<Rightarrow> general_metrics" where
  "load_general_metrics d s e = general_select s e (general_from d s e)"

subsection \<open>\<^verbatim>\<open>load_asset_metrics\<close>\<close>

text \<open>
  \<^verbatim>\<open>LEFT JOIN depositors_summary ds
     ON ds.customer_id = bd.customer_id AND ds.asset_type = bd.asset_type\<close>:
  an equality with NULL on either side is not true.
\<close>

definition join_ds_asset :: "db \<Rightarrow> base_row \<Rightarrow> ds_asset_row option" where
  "join_ds_asset d r =
     find (\<lambda>s. customer_id r \<noteq> None \<and> ds_customer_id s = customer_id r
              \<and> asset_type r \<noteq> None \<and> ds_asset_type s = asset_type r)
       (depositors_summary_asset d)"

definition asset_from :: "db \<Rightarrow> date \<Rightarrow> date \<Rightarrow> (base_row \<times> ds_asset_row option) list" where
  "asset_from d s e =
     filter (\<lambda>j. between_ts (transaction_date (fst j)) s e)
       (map (\<lambda>r. (r, join_ds_asset d r)) (base_data d))"

record asset_metrics = core_metrics +
  am_asset_type :: "string option"
  estimated_revenue :: rat
  maintenance_fees_ghs :: "rat option"
  early_withdrawal_fees_usd :: "rat option"

text \<open>
  The \<^verbatim>\<open>CASE\<close> of \<^verbatim>\<open>estimated_revenue\<close>, for the group with label \<open>k\<close>. A test
  \<^verbatim>\<open>bd.asset_type = '...'\<close> on a NULL label is not true. The two quotients are exact here;
  PostgreSQL rounds a \<^verbatim>\<open>numeric\<close> quotient to the scale it selects.
\<close>

definition estimated_revenue_of :: "string option \<Rightarrow> (base_row \<times> 'a) list \<Rightarrow> rat" where
  "estimated_revenue_of k rows =
     (if k = Some ''Arbitrage'' then
        0.01 * (coalesce (sum_where bd_ghs_amount (is_type ''deposit'') rows) 0
                + coalesce (sum_where bd_ghs_amount (is_type ''withdrawal'') rows) 0)
      else if k = Some ''flex dollar savings'' then
        (0.0475 / 12.0) * coalesce (sum_where bd_usd_amount (is_type ''deposit'') rows) 0
      else if k = Some ''Ladder Lock'' then
        (0.06 / 12.0) * coalesce (sum_where bd_usd_amount (is_type ''deposit'') rows) 0
      else if k = Some ''goal savings'' then
        (0.06 / 12.0) * coalesce (sum_where bd_usd_amount (is_type ''deposit'') rows) 0
      else if k = Some ''Risevest fixed income'' then
        (0.02 / 12.0) * coalesce (sum_where bd_usd_amount (is_type ''deposit'') rows) 0
      else if k = Some ''Risevest real estate'' then
        (0.04 / 12.0) * coalesce (sum_where bd_usd_amount (is_type ''deposit'') rows) 0
      else if k = Some ''Equity'' then
        0.02 * coalesce (sum_where bd_ghs_amount (is_type ''deposit'') rows) 0
      else if k = Some ''Mutual funds'' then
        0.02 * coalesce (sum_where bd_ghs_amount (is_type ''deposit'') rows) 0
      else if k = Some ''ETFs'' then
        0.02 * coalesce (sum_where bd_usd_amount (is_type ''deposit'') rows) 0
      else 0)"

text \<open>The select list of the CTE \<^verbatim>\<open>asset_metrics\<close>, over the rows of the group with label \<open>k\<close>.\<close>

definition asset_select ::
  "date \<Rightarrow> date \<Rightarrow> string option \<Rightarrow> (base_row \<times> ds_asset_row option) list \<Rightarrow> asset_metrics" where
  "asset_select st en k rows =
     \<lparr> deposit_count = count_where (is_type ''deposit'') rows,
       deposit_value_ghs = sum_where bd_ghs_amount (is_type ''deposit'') rows,
       deposit_value_usd = sum_where bd_usd_amount (is_type ''deposit'') rows,
       withdrawal_count = count_where (is_type ''withdrawal'') rows,
       withdrawal_value_ghs = sum_where bd_ghs_amount (is_type ''withdrawal'') rows,
       withdrawal_value_usd = sum_where bd_usd_amount (is_type ''withdrawal'') rows,
       aum_ghs = null_minus (sum_where bd_ghs_amount (is_type ''deposit'') rows)
                   (coalesce (sum_where bd_ghs_amount (is_type ''withdrawal'') rows) 0),
       aum_usd = null_minus (sum_where bd_usd_amount (is_type ''deposit'') rows)
                   (coalesce (sum_where bd_usd_amount (is_type ''withdrawal'') rows) 0),
       total_depositors = count_distinct_where bd_customer_id (is_type ''deposit'') rows,
       recurring_depositors = count_distinct_where ds_customer is_recurring rows,
       new_depositors = count_distinct_where ds_customer (is_new st en) rows,
       avg_deposit_value_ghs = avg_where bd_ghs_amount (is_type ''deposit'') rows,
       avg_deposit_value_usd = avg_where bd_usd_amount (is_type ''deposit'') rows,
       avg_withdrawal_value_ghs = avg_where bd_ghs_amount (is_type ''withdrawal'') rows,
       avg_withdrawal_value_usd = avg_where bd_usd_amount (is_type ''withdrawal'') rows,
       am_asset_type = k,
       estimated_revenue = estimated_revenue_of k rows,
       maintenance_fees_ghs = sum_where bd_ghs_amount (is_type ''maintenance_fee'') rows,
       early_withdrawal_fees_usd =
         null_times (sum_where bd_usd_amount (is_type ''early_withdrawal'') rows) 0.025 \<rparr>"

text \<open>
  \<^verbatim>\<open>GROUP BY bd.asset_type\<close>: one row per distinct label of the rows in the window, the
  NULL label being a group like any other.
\<close>

definition asset_metrics_cte :: "db \<Rightarrow> date \<Rightarrow> date \<Rightarrow> asset_metrics list" where
  "asset_metrics_cte d s e =
     map (\<lambda>k. asset_select s e k (filter (\<lambda>j. bd_asset_type j = k) (asset_from d s e)))
       (remdups (map bd_asset_type (asset_from d s e)))"

text \<open>\<^verbatim>\<open>ORDER BY deposit_value_usd DESC NULLS LAST\<close>, as an insertion sort.\<close>

definition usd_desc_nulls_last :: "asset_metrics \<Rightarrow> asset_metrics \<Rightarrow> bool" where
  "usd_desc_nulls_last a b =
     (case deposit_value_usd a of
        None \<Rightarrow> deposit_value_usd b = None
      | Some x \<Rightarrow> (case deposit_value_usd b of None \<Rightarrow> True | Some y \<Rightarrow> y \<le> x))"

fun insert_by :: "('a \<Rightarrow> 'a \<Rightarrow> bool) \<Rightarrow> 'a \<Rightarrow> 'a list \<Rightarrow> 'a list" where
  "insert_by le x [] = [x]"
| "insert_by le x (y # ys) = (if le x y then x # y # ys else y # insert_by le x ys)"

fun order_by :: "('a \<Rightarrow> 'a \<Rightarrow> bool) \<Rightarrow> 'a list \<Rightarrow> 'a list" where
  "order_by le [] = []"
| "order_by le (x # xs) = insert_by le x (order_by le xs)"

definition load_asset_metrics :: "db \<Rightarrow> date \<Rightarrow> date \<Rightarrow> asset_metrics list" where
  "load_asset_metrics d s e = order_by usd_desc_nulls_last (asset_metrics_cte d s e)"

subsection \<open>\<^verbatim>\<open>get_asset_types\<close>\<close>

text \<open>
  \<^verbatim>\<open>SELECT DISTINCT <asset type> FROM transactions t ... WHERE t.status = 'success'
  AND t.updated_at BETWEEN :start_date AND :end_date AND <asset type> IS NOT NULL
  ORDER BY asset_type\<close>; the users table is not joined. Strings are ordered
  lexicographically by character code.
\<close>

definition get_asset_types :: "db \<Rightarrow> date \<Rightarrow> date \<Rightarrow> string list" where
  "get_asset_types d s e =
     sort (remdups (List.map_filter (asset_type_of d)
       (filter (\<lambda>t. t_status t = ''success'' \<and> between_ts (t_updated_at t) s e
                    \<and> asset_type_of d t \<noteq> None)
          (transactions d))))"

subsection \<open>\<^verbatim>\<open>load_total_users_by_asset_type\<close>\<close>

text \<open>
  \<^verbatim>\<open>SELECT <asset type>, COUNT(DISTINCT u.id) AS total_users FROM transactions t ...
  WHERE <inclusion test> AND t.updated_at BETWEEN :start_date AND :end_date
  AND <asset type> IS NOT NULL GROUP BY asset_type ORDER BY total_users DESC\<close>
\<close>

record users_by_asset_row =
  uba_asset_type :: "string option"
  total_users :: nat

definition users_where :: "db \<Rightarrow> date \<Rightarrow> date \<Rightarrow> txn \<Rightarrow> bool" where
  "users_where d s e t \<longleftrightarrow>
     t_status t = ''success''
     \<and> Option.bind (join_u d t) u_restricted = Some False
     \<and> (case t_provider_number t of None \<Rightarrow> False | Some pr \<Rightarrow> pr \<noteq> ''Flex Dollar'')
     \<and> between_ts (t_updated_at t) s e
     \<and> asset_type_of d t \<noteq> None"

definition load_total_users_by_asset_type :: "db \<Rightarrow> date \<Rightarrow> date \<Rightarrow> users_by_asset_row list" where
  "load_total_users_by_asset_type d s e =
     rev (sort_key total_users
       (map (\<lambda>k. \<lparr> uba_asset_type = k,
                    total_users =
                      count_distinct_where (u_id d) (\<lambda>t. asset_type_of d t = k)
                        (filter (users_where d s e) (transactions d)) \<rparr>)
          (remdups (map (asset_type_of d) (filter (users_where d s e) (transactions d))))))"

subsection \<open>\<^verbatim>\<open>load_transaction_trend\<close>\<close>

text \<open>
  \<^verbatim>\<open>SELECT DATE_TRUNC(:granularity, t.updated_at) AS period, t.tx_type,
         SUM(t.amount) AS total_amount
  FROM transactions t ... WHERE ... GROUP BY period, t.tx_type ORDER BY period ASC\<close>.
  \<^verbatim>\<open>DATE_TRUNC\<close> is PostgreSQL's; it is a parameter here. SQL leaves the order of two
  points of one period open; the sort used here keeps the order of the groups.
\<close>

datatype granularity = Day | Week | Month

record trend_point =
  period :: timestamp
  tx_type :: string
  total_amount :: "rat option"

definition trend_where :: "db \<Rightarrow> date \<Rightarrow> date \<Rightarrow> txn \<Rightarrow> bool" where
  "trend_where d s e t \<longleftrightarrow>
     t_status t = ''success''
     \<and> Option.bind (join_u d t) u_restricted = Some False
     \<and> (case t_provider_number t of None \<Rightarrow> False | Some pr \<Rightarrow> pr \<noteq> ''Flex Dollar'')
     \<and> between_ts (t_updated_at t) s e"

definition load_transaction_trend ::
  "(granularity \<Rightarrow> timestamp \<Rightarrow> timestamp) \<Rightarrow> db \<Rightarrow> date \<Rightarrow> date \<Rightarrow> granularity
     \<Rightarrow> trend_point list" where
  "load_transaction_trend date_trunc d s e g =
     sort_key period
       (map (\<lambda>(p, ty).
               \<lparr> period = p, tx_type = ty,
                 total_amount =
                   sum_where t_amount (\<lambda>t. date_trunc g (t_updated_at t) = p \<and> t_tx_type t = ty)
                     (filter (trend_where d s e) (transactions d)) \<rparr>)
          (remdups (map (\<lambda>t. (date_trunc g (t_updated_at t), t_tx_type t))
             (filter (trend_where d s e) (transactions d)))))"

subsection \<open>\<^verbatim>\<open>fmt\<close>\<close>

text \<open>
  \<^verbatim>\<open>f"{val:,.2f}" if pd.notnull(val) and val is not None else "0.00"\<close>: the rendering of
  a number is a parameter; an absent value is shown as \<^verbatim>\<open>0.00\<close>.
\<close>

definition fmt :: "(rat \<Rightarrow> string) \<Rightarrow> rat option \<Rightarrow> string" where
  "fmt render val = (case val of None \<Rightarrow> ''0.00'' | Some v \<Rightarrow> render v)"

section \<open>Notions used to state the properties\<close>

text \<open>The labels tested by the \<^verbatim>\<open>CASE\<close> of \<^verbatim>\<open>estimated_revenue\<close>: the fee table.\<close>

definition fee_table :: "string list" where
  "fee_table = [''Arbitrage'', ''flex dollar savings'', ''Ladder Lock'', ''goal savings'',
     ''Risevest fixed income'', ''Risevest real estate'', ''Equity'', ''Mutual funds'', ''ETFs'']"

text \<open>
  The transactions of the ledger that pass the inclusion test of \<^verbatim>\<open>base_data\<close> and lie in
  the window, and those of them with a given asset-type label.
\<close>

definition qualifying_in_window :: "db \<Rightarrow> date \<Rightarrow> date \<Rightarrow> txn list" where
  "qualifying_in_window d s e =
     filter (\<lambda>t. base_where d t \<and> between_ts (t_updated_at t) s e) (transactions d)"

definition asset_group :: "db \<Rightarrow> date \<Rightarrow> date \<Rightarrow> string option \<Rightarrow> txn list" where
  "asset_group d s e k = filter (\<lambda>t. asset_type_of d t = k) (qualifying_in_window d s e)"

text \<open>
  The timestamps of a customer's transactions: of those that pass the whole inclusion
  test (status, restriction flag, provider), and of those with \<^verbatim>\<open>status = 'success'\<close>
  whose plan or investment plan names the customer.
\<close>

definition qualifying_times :: "db \<Rightarrow> nat \<Rightarrow> timestamp list" where
  "qualifying_times d c =
     map t_updated_at (filter (\<lambda>t. base_where d t \<and> u_id d t = Some c) (transactions d))"

definition success_times :: "db \<Rightarrow> nat option \<Rightarrow> timestamp list" where
  "success_times d k =
     map t_updated_at
       (filter (\<lambda>t. t_status t = ''success'' \<and> coalesce_user_id d t = k) (transactions d))"

text \<open>
  The distinct timestamps of a customer's rows in \<^verbatim>\<open>deposits\<close>: over the whole ledger, over
  the whole ledger for one asset-type label, and inside the window only.
\<close>

definition deposit_times :: "db \<Rightarrow> nat \<Rightarrow> timestamp list" where
  "deposit_times d c =
     remdups (map transaction_date (filter (\<lambda>r. customer_id r = Some c) (deposits d)))"

definition deposit_times_asset :: "db \<Rightarrow> nat \<Rightarrow> string \<Rightarrow> timestamp list" where
  "deposit_times_asset d c a =
     remdups (map transaction_date
       (filter (\<lambda>r. customer_id r = Some c \<and> asset_type r = Some a) (deposits d)))"

definition deposit_times_in_window :: "db \<Rightarrow> date \<Rightarrow> date \<Rightarrow> nat \<Rightarrow> timestamp list" where
  "deposit_times_in_window d s e c =
     remdups (map transaction_date
       (filter (\<lambda>r. customer_id r = Some c \<and> between_ts (transaction_date r) s e) (deposits d)))"

text \<open>
  The customers counted by the four \<^verbatim>\<open>COUNT(DISTINCT ...)\<close> of the segmentation, over the
  rows of a \<^verbatim>\<open>FROM ... WHERE\<close> (of one group): recurring, new, with a deposit among the
  rows, with any row at all.
\<close>

definition recurring_customers :: "('b \<times> ('z ds_row_scheme) option) list \<Rightarrow> nat set" where
  "recurring_customers rows = set (distinct_where ds_customer is_recurring rows)"

definition new_customers :: "date \<Rightarrow> date \<Rightarrow> ('b \<times> ('z ds_row_scheme) option) list \<Rightarrow> nat set" where
  "new_customers s e rows = set (distinct_where ds_customer (is_new s e) rows)"

definition depositing_customers :: "(base_row \<times> 'a) list \<Rightarrow> nat set" where
  "depositing_customers rows = set (distinct_where bd_customer_id (is_type ''deposit'') rows)"

definition transacting_customers :: "(base_row \<times> 'a) list \<Rightarrow> nat set" where
  "transacting_customers rows = set (distinct_where bd_customer_id (\<lambda>j. True) rows)"

text \<open>The rows of the group with label \<open>k\<close> in \<^verbatim>\<open>GROUP BY bd.asset_type\<close>.\<close>

definition asset_rows ::
  "db \<Rightarrow> date \<Rightarrow> date \<Rightarrow> string option \<Rightarrow> (base_row \<times> ds_asset_row option) list" where
  "asset_rows d s e k = filter (\<lambda>i. bd_asset_type i = k) (asset_from d s e)"



section \<open>Example ledgers\<close>

text \<open>
  Customer 1 holds plan 10 (label \<^verbatim>\<open>Treasury\<close>, not in the fee table) with a deposit on
  day 1 and, on day 2, a withdrawal and a maintenance-fee deduction recorded as a
  withdrawal; customer 2 is restricted and deposits on plan 11.
\<close>

definition fee_deduction :: txn where
  "fee_deduction =
     \<lparr> t_id = 3, t_tx_type = ''withdrawal'',
       t_metadata = Some ''MONTHLY Maintenance fee deduction, June'', t_amount = 2,
       t_usd_amount = 1, t_updated_at = 172800, t_status = ''success'',
       t_provider_number = Some ''MTN'', t_investment_plan_id = None, t_plan_id = Some 10 \<rparr>"

definition ledger1 :: db where
  "ledger1 =
     \<lparr> transactions =
         [ \<lparr> t_id = 1, t_tx_type = ''deposit'', t_metadata = None, t_amount = 100,
             t_usd_amount = 10, t_updated_at = 86400, t_status = ''success'',
             t_provider_number = Some ''MTN'', t_investment_plan_id = None, t_plan_id = Some 10 \<rparr>,
           \<lparr> t_id = 2, t_tx_type = ''withdrawal'', t_metadata = None, t_amount = 30,
             t_usd_amount = 3, t_updated_at = 172800, t_status = ''success'',
             t_provider_number = Some ''MTN'', t_investment_plan_id = None, t_plan_id = Some 10 \<rparr>,
           fee_deduction,
           \<lparr> t_id = 4, t_tx_type = ''deposit'', t_metadata = None, t_amount = 500,
             t_usd_amount = 50, t_updated_at = 172800, t_status = ''success'',
             t_provider_number = Some ''MTN'', t_investment_plan_id = None, t_plan_id = Some 11 \<rparr> ],
       investment_plans = Map.empty,
       plans = [10 \<mapsto> \<lparr> p_user_id = Some 1, p_plan_option = Some ''Treasury'' \<rparr>,
                11 \<mapsto> \<lparr> p_user_id = Some 2, p_plan_option = Some ''goal savings'' \<rparr>],
       users = [1 \<mapsto> \<lparr> u_restricted = Some False \<rparr>, 2 \<mapsto> \<lparr> u_restricted = Some True \<rparr>],
       assets = Map.empty \<rparr>"

definition ledger1_deposit_row :: base_row where
  "ledger1_deposit_row =
     \<lparr> transaction_id = 1, transaction_type = ''deposit'', asset_type = Some ''Treasury'',
       customer_id = Some 1, first_transaction_date = Some 86400, transaction_date = 86400,
       ghs_amount = 100, usd_amount = 10 \<rparr>"

definition treasury_row :: asset_metrics where
  "treasury_row =
     \<lparr> deposit_count = 1, deposit_value_ghs = Some 100, deposit_value_usd = Some 10,
       withdrawal_count = 1, withdrawal_value_ghs = Some 30, withdrawal_value_usd = Some 3,
       aum_ghs = Some 70, aum_usd = Some 7,
       total_depositors = 1, recurring_depositors = 0, new_depositors = 1,
       avg_deposit_value_ghs = Some 100, avg_deposit_value_usd = Some 10,
       avg_withdrawal_value_ghs = Some 30, avg_withdrawal_value_usd = Some 3,
       am_asset_type = Some ''Treasury'', estimated_revenue = 0,
       maintenance_fees_ghs = Some 2, early_withdrawal_fees_usd = None \<rparr>"

text \<open>
  Customer 1 deposits twice on plan 10: first through the provider \<^verbatim>\<open>Flex Dollar\<close>, later
  through another provider.
\<close>

definition ledger_c2 :: db where
  "ledger_c2 =
     \<lparr> transactions =
         [ \<lparr> t_id = 1, t_tx_type = ''deposit'', t_metadata = None, t_amount = 100,
             t_usd_amount = 10, t_updated_at = 100, t_status = ''success'',
             t_provider_number = Some ''Flex Dollar'', t_investment_plan_id = None,
             t_plan_id = Some 10 \<rparr>,
           \<lparr> t_id = 2, t_tx_type = ''deposit'', t_metadata = None, t_amount = 50,
             t_usd_amount = 5, t_updated_at = 200000, t_status = ''success'',
             t_provider_number = Some ''MTN'', t_investment_plan_id = None,
             t_plan_id = Some 10 \<rparr> ],
       investment_plans = Map.empty,
       plans = [10 \<mapsto> \<lparr> p_user_id = Some 1, p_plan_option = Some ''Treasury'' \<rparr>],
       users = [1 \<mapsto> \<lparr> u_restricted = Some False \<rparr>],
       assets = Map.empty \<rparr>"

text \<open>
  Customer 7 holds plan 10 and deposits on day 1 and on day 10, then withdraws on
  day 12. The summary row and two joined rows of this ledger are named.
\<close>

definition ledger2 :: db where
  "ledger2 =
     \<lparr> transactions =
         [ \<lparr> t_id = 1, t_tx_type = ''deposit'', t_metadata = None, t_amount = 100,
             t_usd_amount = 10, t_updated_at = 86400, t_status = ''success'',
             t_provider_number = Some ''MTN'', t_investment_plan_id = None, t_plan_id = Some 10 \<rparr>,
           \<lparr> t_id = 2, t_tx_type = ''deposit'', t_metadata = None, t_amount = 50,
             t_usd_amount = 5, t_updated_at = 864000, t_status = ''success'',
             t_provider_number = Some ''MTN'', t_investment_plan_id = None, t_plan_id = Some 10 \<rparr>,
           \<lparr> t_id = 3, t_tx_type = ''withdrawal'', t_metadata = None, t_amount = 30,
             t_usd_amount = 3, t_updated_at = 1036800, t_status = ''success'',
             t_provider_number = Some ''MTN'', t_investment_plan_id = None, t_plan_id = Some 10 \<rparr> ],
       investment_plans = Map.empty,
       plans = [10 \<mapsto> \<lparr> p_user_id = Some 7, p_plan_option = Some ''Treasury'' \<rparr>],
       users = [7 \<mapsto> \<lparr> u_restricted = Some False \<rparr>],
       assets = Map.empty \<rparr>"

definition ledger2_summary_row :: ds_row where
  "ledger2_summary_row =
     \<lparr> ds_customer_id = Some 7, ds_deposit_count = 2, first_deposit_date = Some 86400,
       tx_days = 2 \<rparr>"

definition ledger2_deposit_row :: "base_row \<times> ds_row option" where
  "ledger2_deposit_row =
     (\<lparr> transaction_id = 2, transaction_type = ''deposit'', asset_type = Some ''Treasury'',
        customer_id = Some 7, first_transaction_date = Some 86400, transaction_date = 864000,
        ghs_amount = 50, usd_amount = 5 \<rparr>, Some ledger2_summary_row)"

definition ledger2_withdrawal_row :: "base_row \<times> ds_row option" where
  "ledger2_withdrawal_row =
     (\<lparr> transaction_id = 3, transaction_type = ''withdrawal'', asset_type = Some ''Treasury'',
        customer_id = Some 7, first_transaction_date = Some 86400, transaction_date = 1036800,
        ghs_amount = 30, usd_amount = 3 \<rparr>, Some ledger2_summary_row)"

text \<open>Customer 1 deposits on an investment plan that has no asset.\<close>

definition ledger3 :: db where
  "ledger3 =
     \<lparr> transactions =
         [ \<lparr> t_id = 1, t_tx_type = ''deposit'', t_metadata = None, t_amount = 100,
             t_usd_amount = 10, t_updated_at = 86400, t_status = ''success'',
             t_provider_number = Some ''MTN'', t_investment_plan_id = Some 20, t_plan_id = None \<rparr> ],
       investment_plans =
         [20 \<mapsto> \<lparr> ip_user_id = Some 1, ip_plan_option = Some ''fixed'', ip_asset_id = None \<rparr>],
       plans = Map.empty,
       users = [1 \<mapsto> \<lparr> u_restricted = Some False \<rparr>],
       assets = Map.empty \<rparr>"

text \<open>
  Customer 9 holds plan 10, withdraws on day 12 and makes the only deposit at noon of
  day 20.
\<close>

definition ledger4 :: db where
  "ledger4 =
     \<lparr> transactions =
         [ \<lparr> t_id = 1, t_tx_type = ''withdrawal'', t_metadata = None, t_amount = 30,
             t_usd_amount = 3, t_updated_at = 1036800, t_status = ''success'',
             t_provider_number = Some ''MTN'', t_investment_plan_id = None, t_plan_id = Some 10 \<rparr>,
           \<lparr> t_id = 2, t_tx_type = ''deposit'', t_metadata = None, t_amount = 50,
             t_usd_amount = 5, t_updated_at = 1771200, t_status = ''success'',
             t_provider_number = Some ''MTN'', t_investment_plan_id = None, t_plan_id = Some 10 \<rparr> ],
       investment_plans = Map.empty,
       plans = [10 \<mapsto> \<lparr> p_user_id = Some 9, p_plan_option = Some ''Treasury'' \<rparr>],
       users = [9 \<mapsto> \<lparr> u_restricted = Some False \<rparr>],
       assets = Map.empty \<rparr>"

text \<open>\<^verbatim>\<open>DATE_TRUNC('day', ts)\<close>, for the trend of the first ledger by day.\<close>

definition date_trunc_day :: "granularity \<Rightarrow> timestamp \<Rightarrow> timestamp" where
  "date_trunc_day g ts = midnight (DATE ts)"

section \<open>Structure of the query results\<close>

lemmas join_defs =
  join_ip_def join_p_def coalesce_user_id_def join_u_def u_id_def join_a_def asset_type_of_def

lemmas classifier_defs =
  transaction_type_of_def has_marker_def ilike_contains_def lower_char_def ascii_upper_def
  ascii_lower_def maintenance_marker_def

lemmas window_defs = between_ts_def between_date_def midnight_def DATE_def

lemmas aggregate_defs =
  count_where_def sum_where_def avg_where_def distinct_where_def count_distinct_where_def
  coalesce_def null_minus_def null_times_def is_type_def bd_customer_id_def bd_asset_type_def
  bd_ghs_amount_def bd_usd_amount_def ds_customer_def is_recurring_def is_new_def

lemma set_insert_by: "set (insert_by le x xs) = insert x (set xs)"
  by (induction xs) auto

lemma set_order_by: "set (order_by le xs) = set xs"
  by (induction xs) (auto simp: set_insert_by)

lemma set_map_filter: "set (List.map_filter f xs) = {y. \<exists>x \<in> set xs. f x = Some y}"
  by (induction xs) (auto split: option.splits)

lemma sql_min_eq: "sql_min xs = (if xs = [] then None else Some (Min (set xs)))"
  by (induction xs) (auto split: option.splits)



lemma base_row_of_sel [simp]:
  "transaction_type (base_row_of d t) = transaction_type_of t"
  "asset_type (base_row_of d t) = asset_type_of d t"
  "customer_id (base_row_of d t) = u_id d t"
  "first_transaction_date (base_row_of d t) = join_ft d t"
  "transaction_date (base_row_of d t) = t_updated_at t"
  "ghs_amount (base_row_of d t) = t_amount t"
  "usd_amount (base_row_of d t) = t_usd_amount t"
  by (simp_all add: base_row_of_def)

text \<open>Every row of the asset breakdown is the select list over the rows of one label.\<close>

lemma load_asset_metrics_row:
  "r \<in> set (load_asset_metrics d s e) \<longleftrightarrow>
     (\<exists>j \<in> set (asset_from d s e).
        r = asset_select s e (bd_asset_type j)
              (filter (\<lambda>i. bd_asset_type i = bd_asset_type j) (asset_from d s e)))"
  by (auto simp: load_asset_metrics_def asset_metrics_cte_def set_order_by)

text \<open>The rows read by the two final queries, by transaction.\<close>

lemma general_from_eq:
  "general_from d s e =
     map (\<lambda>t. (base_row_of d t, join_ds d (base_row_of d t))) (qualifying_in_window d s e)"
  by (simp add: general_from_def base_data_def qualifying_in_window_def filter_map o_def
      conj_commute)

lemma asset_from_eq:
  "asset_from d s e =
     map (\<lambda>t. (base_row_of d t, join_ds_asset d (base_row_of d t))) (qualifying_in_window d s e)"
  by (simp add: asset_from_def base_data_def qualifying_in_window_def filter_map o_def
      conj_commute)

lemma asset_rows_eq:
  "filter (\<lambda>i. bd_asset_type i = k) (asset_from d s e) =
     map (\<lambda>t. (base_row_of d t, join_ds_asset d (base_row_of d t))) (asset_group d s e k)"
  by (simp add: asset_from_eq asset_group_def filter_map o_def bd_asset_type_def)

lemma load_asset_metrics_group:
  assumes "r \<in> set (load_asset_metrics d s e)"
  shows "r = asset_select s e (am_asset_type r)
            (map (\<lambda>t. (base_row_of d t, join_ds_asset d (base_row_of d t)))
               (asset_group d s e (am_asset_type r)))"
  using assms unfolding load_asset_metrics_row
proof (elim bexE)
  fix j
  assume r: "r = asset_select s e (bd_asset_type j)
              (filter (\<lambda>i. bd_asset_type i = bd_asset_type j) (asset_from d s e))"
  have k: "am_asset_type r = bd_asset_type j"
    by (subst r) (simp add: asset_select_def)
  show ?thesis
    unfolding k asset_rows_eq [symmetric] by (rule r)
qed

lemma asset_select_sel:
  "withdrawal_count (asset_select st en k rows) = count_where (is_type ''withdrawal'') rows"
  "withdrawal_value_ghs (asset_select st en k rows) =
     sum_where bd_ghs_amount (is_type ''withdrawal'') rows"
  "withdrawal_value_usd (asset_select st en k rows) =
     sum_where bd_usd_amount (is_type ''withdrawal'') rows"
  "maintenance_fees_ghs (asset_select st en k rows) =
     sum_where bd_ghs_amount (is_type ''maintenance_fee'') rows"
  "am_asset_type (asset_select st en k rows) = k"
  "estimated_revenue (asset_select st en k rows) = estimated_revenue_of k rows"
  "total_depositors (asset_select st en k rows) =
     count_distinct_where bd_customer_id (is_type ''deposit'') rows"
  "recurring_depositors (asset_select st en k rows) =
     count_distinct_where ds_customer is_recurring rows"
  "new_depositors (asset_select st en k rows) =
     count_distinct_where ds_customer (is_new st en) rows"
  by (simp_all add: asset_select_def)

lemma base_where_owner:
  assumes "base_where d t"
  shows "t_status t = ''success''"
    and "\<exists>c. u_id d t = Some c \<and> coalesce_user_id d t = Some c"
  using assms
  by (auto simp: base_where_def u_id_def join_u_def split: option.splits Option.bind_splits)





lemma map_of_first_transactions:
  "map_of (first_transactions d) k =
     (if k \<in> coalesce_user_id d ` {t \<in> set (transactions d). t_status t = ''success''}
      then Some (sql_min (success_times d k)) else None)"
  by (auto simp: first_transactions_def success_times_def map_of_map_restrict restrict_map_def)

lemma asset_label_listed:
  assumes "j \<in> set (asset_from d s e)" and "bd_asset_type j = Some l"
  shows "l \<in> set (get_asset_types d s e)"
proof -
  from assms(1) obtain t where t: "t \<in> set (transactions d)" "base_where d t"
      "between_ts (t_updated_at t) s e" and j: "fst j = base_row_of d t"
    by (auto simp: asset_from_eq qualifying_in_window_def)
  from assms(2) j have "asset_type_of d t = Some l"
    by (simp add: bd_asset_type_def)
  moreover from t(2) have "t_status t = ''success''"
    by (simp add: base_where_def)
  ultimately show ?thesis
    using t(1,3) by (auto simp: get_asset_types_def set_map_filter)
qed

subsection \<open>The depositor summary joined to a row\<close>

lemma find_map_key:
  assumes "\<And>k. key (mk k) = k"
  shows "find (\<lambda>s. key s = k) (map mk ks) = (if k \<in> set ks then Some (mk k) else None)"
  using assms by (induction ks) auto

lemma sql_min_remdups: "sql_min (remdups xs) = sql_min xs"
  by (simp add: sql_min_eq)

lemma join_ds_eq:
  assumes "customer_id r = Some c"
  shows "join_ds d r =
     (if deposit_times d c = [] then None
      else Some \<lparr> ds_customer_id = Some c,
                  ds_deposit_count = length (filter (\<lambda>r. customer_id r = Some c) (deposits d)),
                  first_deposit_date = sql_min (deposit_times d c),
                  tx_days = length (deposit_times d c) \<rparr>)"
proof -
  have e: "deposit_times d c = [] \<longleftrightarrow> Some c \<notin> set (remdups (map customer_id (deposits d)))"
    by (force simp: deposit_times_def filter_empty_conv)
  have "join_ds d r = find (\<lambda>s. ds_customer_id s = Some c) (depositors_summary d)"
    by (simp add: join_ds_def assms)
  also have "\<dots> =
     (if Some c \<in> set (remdups (map customer_id (deposits d)))
      then Some \<lparr> ds_customer_id = Some c,
                  ds_deposit_count = length (filter (\<lambda>r. customer_id r = Some c) (deposits d)),
                  first_deposit_date = sql_min (deposit_times d c),
                  tx_days = length (deposit_times d c) \<rparr>
      else None)"
    unfolding depositors_summary_def
    by (subst find_map_key [where key = ds_customer_id])
       (simp_all add: deposit_times_def sql_min_remdups)
  finally show ?thesis
    by (simp add: e)
qed

lemma join_ds_asset_eq:
  assumes "customer_id r = Some c" and "asset_type r = Some a"
  shows "join_ds_asset d r =
     (if deposit_times_asset d c a = [] then None
      else Some \<lparr> ds_customer_id = Some c,
                  ds_deposit_count =
                    length (filter (\<lambda>r. customer_id r = Some c \<and> asset_type r = Some a) (deposits d)),
                  first_deposit_date = sql_min (deposit_times_asset d c a),
                  tx_days = length (deposit_times_asset d c a),
                  ds_asset_type = Some a \<rparr>)"
proof -
  have e: "deposit_times_asset d c a = [] \<longleftrightarrow>
      (Some c, Some a) \<notin> set (remdups (map (\<lambda>r. (customer_id r, asset_type r)) (deposits d)))"
    by (force simp: deposit_times_asset_def filter_empty_conv)
  have "join_ds_asset d r =
      find (\<lambda>s. (ds_customer_id s, ds_asset_type s) = (Some c, Some a)) (depositors_summary_asset d)"
    by (simp add: join_ds_asset_def assms)
  also have "\<dots> =
     (if (Some c, Some a) \<in> set (remdups (map (\<lambda>r. (customer_id r, asset_type r)) (deposits d)))
      then Some \<lparr> ds_customer_id = Some c,
                  ds_deposit_count =
                    length (filter (\<lambda>r. customer_id r = Some c \<and> asset_type r = Some a) (deposits d)),
                  first_deposit_date = sql_min (deposit_times_asset d c a),
                  tx_days = length (deposit_times_asset d c a),
                  ds_asset_type = Some a \<rparr>
      else None)"
    unfolding depositors_summary_asset_def
    by (subst find_map_key [where key = "\<lambda>s. (ds_customer_id s, ds_asset_type s)"])
       (simp_all add: deposit_times_asset_def sql_min_remdups split: prod.splits)
  finally show ?thesis
    by (simp add: e)
qed

lemma join_ds_asset_no_label: "asset_type r = None \<Longrightarrow> join_ds_asset d r = None"
  by (simp add: join_ds_asset_def find_None_iff)

lemma count_distinct_card:
  "count_distinct_where f P rows = card (set (distinct_where f P rows))"
  by (simp add: count_distinct_where_def distinct_where_def length_remdups_card_conv)

lemma set_distinct_where:
  "set (distinct_where f P rows) = {c. \<exists>j \<in> set rows. P j \<and> f j = Some c}"
  by (auto simp: distinct_where_def set_map_filter)

text \<open>What the joined summary of a row says about the row's customer.\<close>

lemma general_row_summary:
  assumes "j \<in> set (general_from d s e)" and "customer_id (fst j) = Some c"
  shows "snd j =
     (if deposit_times d c = [] then None
      else Some \<lparr> ds_customer_id = Some c,
                  ds_deposit_count = length (filter (\<lambda>r. customer_id r = Some c) (deposits d)),
                  first_deposit_date = sql_min (deposit_times d c),
                  tx_days = length (deposit_times d c) \<rparr>)"
proof -
  from assms(1) have "snd j = join_ds d (fst j)"
    by (auto simp: general_from_def)
  with join_ds_eq [OF assms(2)] show ?thesis
    by simp
qed

lemma asset_row_summary:
  assumes "j \<in> set (asset_from d s e)" and "customer_id (fst j) = Some c"
    and "asset_type (fst j) = Some a"
  shows "snd j =
     (if deposit_times_asset d c a = [] then None
      else Some \<lparr> ds_customer_id = Some c,
                  ds_deposit_count =
                    length (filter (\<lambda>r. customer_id r = Some c \<and> asset_type r = Some a) (deposits d)),
                  first_deposit_date = sql_min (deposit_times_asset d c a),
                  tx_days = length (deposit_times_asset d c a),
                  ds_asset_type = Some a \<rparr>)"
proof -
  from assms(1) have "snd j = join_ds_asset d (fst j)"
    by (auto simp: asset_from_def)
  with join_ds_asset_eq [OF assms(2,3)] show ?thesis
    by simp
qed

lemma asset_row_no_label:
  assumes "j \<in> set (asset_from d s e)" and "asset_type (fst j) = None"
  shows "snd j = None"
proof -
  from assms(1) have "snd j = join_ds_asset d (fst j)"
    by (auto simp: asset_from_def)
  with join_ds_asset_no_label [OF assms(2)] show ?thesis
    by simp
qed

lemma base_data_customer:
  assumes "r \<in> set (base_data d)"
  shows "\<exists>c. customer_id r = Some c"
proof -
  from assms obtain t where "base_where d t" "r = base_row_of d t"
    by (auto simp: base_data_def)
  with base_where_owner(2) [of d t] show ?thesis
    by auto
qed

lemma from_base_data:
  "j \<in> set (general_from d s e) \<Longrightarrow> fst j \<in> set (base_data d)"
  "i \<in> set (asset_from d s e) \<Longrightarrow> fst i \<in> set (base_data d)"
  by (auto simp: general_from_def asset_from_def)

lemma general_labels:
  assumes "j \<in> set (general_from d s e)" and "customer_id (fst j) = Some c"
  shows "is_recurring j \<longleftrightarrow> 1 < length (deposit_times d c)"
    and "is_new s e j \<longleftrightarrow>
           length (deposit_times d c) = 1
           \<and> (\<exists>f. sql_min (deposit_times d c) = Some f \<and> between_date f s e)"
    and "is_recurring j \<or> is_new s e j \<Longrightarrow> ds_customer j = Some c"
    and "ds_customer j = Some c' \<Longrightarrow> c' = c"
  using general_row_summary [OF assms]
  by (auto simp: is_recurring_def is_new_def ds_customer_def split: option.splits if_splits)

lemma asset_labels:
  assumes "j \<in> set (asset_from d s e)" and "customer_id (fst j) = Some c"
    and "asset_type (fst j) = Some a"
  shows "is_recurring j \<longleftrightarrow> 1 < length (deposit_times_asset d c a)"
    and "is_new s e j \<longleftrightarrow>
           length (deposit_times_asset d c a) = 1
           \<and> (\<exists>f. sql_min (deposit_times_asset d c a) = Some f \<and> between_date f s e)"
    and "is_recurring j \<or> is_new s e j \<Longrightarrow> ds_customer j = Some c"
    and "ds_customer j = Some c' \<Longrightarrow> c' = c"
  using asset_row_summary [OF assms]
  by (auto simp: is_recurring_def is_new_def ds_customer_def split: option.splits if_splits)

lemma asset_no_label_labels:
  assumes "j \<in> set (asset_from d s e)" and "asset_type (fst j) = None"
  shows "\<not> is_recurring j" and "\<not> is_new s e j" and "ds_customer j = None"
  using asset_row_no_label [OF assms]
  by (simp_all add: is_recurring_def is_new_def ds_customer_def)

lemma customers_by_label:
  assumes cust: "\<And>j. j \<in> set rows \<Longrightarrow> \<exists>c. customer_id (fst j) = Some c"
    and lab: "\<And>j c. j \<in> set rows \<Longrightarrow> customer_id (fst j) = Some c \<Longrightarrow> P j \<longleftrightarrow> Q c"
    and own: "\<And>j c. j \<in> set rows \<Longrightarrow> customer_id (fst j) = Some c \<Longrightarrow> P j
                \<Longrightarrow> ds_customer j = Some c"
    and same: "\<And>j c c'. j \<in> set rows \<Longrightarrow> customer_id (fst j) = Some c
                \<Longrightarrow> ds_customer j = Some c' \<Longrightarrow> c' = c"
  shows "set (distinct_where ds_customer P rows) = {c \<in> transacting_customers rows. Q c}"
proof (intro set_eqI iffI)
  fix c
  assume "c \<in> set (distinct_where ds_customer P rows)"
  then obtain j where j: "j \<in> set rows" "P j" "ds_customer j = Some c"
    by (auto simp: set_distinct_where)
  from cust [OF j(1)] obtain c0 where c0: "customer_id (fst j) = Some c0" ..
  from same [OF j(1) c0 j(3)] c0 have cj: "customer_id (fst j) = Some c"
    by simp
  from lab [OF j(1) cj] j(2) have "Q c"
    by simp
  moreover from j(1) cj have "c \<in> transacting_customers rows"
    by (auto simp: transacting_customers_def set_distinct_where bd_customer_id_def)
  ultimately show "c \<in> {c \<in> transacting_customers rows. Q c}"
    by simp
next
  fix c
  assume "c \<in> {c \<in> transacting_customers rows. Q c}"
  then obtain j where j: "j \<in> set rows" "customer_id (fst j) = Some c" and q: "Q c"
    by (auto simp: transacting_customers_def set_distinct_where bd_customer_id_def)
  from lab [OF j] q have p: "P j"
    by simp
  from own [OF j p] j(1) p show "c \<in> set (distinct_where ds_customer P rows)"
    by (auto simp: set_distinct_where)
qed

lemma recurring_customers_general:
  "recurring_customers (general_from d s e) =
     {c \<in> transacting_customers (general_from d s e). 1 < length (deposit_times d c)}"
  unfolding recurring_customers_def
proof (rule customers_by_label)
  fix j
  assume "j \<in> set (general_from d s e)"
  then show "\<exists>c. customer_id (fst j) = Some c"
    by (rule base_data_customer [OF from_base_data(1)])
next
  fix j c
  assume j: "j \<in> set (general_from d s e)" "customer_id (fst j) = Some c"
  show "is_recurring j \<longleftrightarrow> 1 < length (deposit_times d c)"
    by (rule general_labels(1) [OF j])
  show "ds_customer j = Some c" if "is_recurring j"
    using general_labels(3) [OF j] that by simp
  show "c' = c" if "ds_customer j = Some c'" for c'
    using that by (rule general_labels(4) [OF j])
qed

lemma new_customers_general:
  "new_customers s e (general_from d s e) =
     {c \<in> transacting_customers (general_from d s e).
        length (deposit_times d c) = 1
        \<and> (\<exists>f. sql_min (deposit_times d c) = Some f \<and> between_date f s e)}"
  unfolding new_customers_def
proof (rule customers_by_label)
  fix j
  assume "j \<in> set (general_from d s e)"
  then show "\<exists>c. customer_id (fst j) = Some c"
    by (rule base_data_customer [OF from_base_data(1)])
next
  fix j c
  assume j: "j \<in> set (general_from d s e)" "customer_id (fst j) = Some c"
  show "is_new s e j \<longleftrightarrow>
          length (deposit_times d c) = 1
          \<and> (\<exists>f. sql_min (deposit_times d c) = Some f \<and> between_date f s e)"
    by (rule general_labels(2) [OF j])
  show "ds_customer j = Some c" if "is_new s e j"
    using general_labels(3) [OF j] that by simp
  show "c' = c" if "ds_customer j = Some c'" for c'
    using that by (rule general_labels(4) [OF j])
qed

lemma asset_rows_member:
  "j \<in> set (asset_rows d s e k) \<longleftrightarrow> j \<in> set (asset_from d s e) \<and> asset_type (fst j) = k"
  by (auto simp: asset_rows_def bd_asset_type_def)

lemma recurring_customers_asset:
  "recurring_customers (asset_rows d s e (Some a)) =
     {c \<in> transacting_customers (asset_rows d s e (Some a)).
        1 < length (deposit_times_asset d c a)}"
  unfolding recurring_customers_def
proof (rule customers_by_label)
  fix j
  assume "j \<in> set (asset_rows d s e (Some a))"
  then have "j \<in> set (asset_from d s e)"
    by (simp add: asset_rows_member)
  then show "\<exists>c. customer_id (fst j) = Some c"
    by (rule base_data_customer [OF from_base_data(2)])
next
  fix j c
  assume "j \<in> set (asset_rows d s e (Some a))" and c: "customer_id (fst j) = Some c"
  then have j: "j \<in> set (asset_from d s e)" "customer_id (fst j) = Some c"
      "asset_type (fst j) = Some a"
    by (simp_all add: asset_rows_member)
  show "is_recurring j \<longleftrightarrow> 1 < length (deposit_times_asset d c a)"
    by (rule asset_labels(1) [OF j])
  show "ds_customer j = Some c" if "is_recurring j"
    using asset_labels(3) [OF j] that by simp
  show "c' = c" if "ds_customer j = Some c'" for c'
    using that by (rule asset_labels(4) [OF j])
qed

lemma new_customers_asset:
  "new_customers s e (asset_rows d s e (Some a)) =
     {c \<in> transacting_customers (asset_rows d s e (Some a)).
        length (deposit_times_asset d c a) = 1
        \<and> (\<exists>f. sql_min (deposit_times_asset d c a) = Some f \<and> between_date f s e)}"
  unfolding new_customers_def
proof (rule customers_by_label)
  fix j
  assume "j \<in> set (asset_rows d s e (Some a))"
  then have "j \<in> set (asset_from d s e)"
    by (simp add: asset_rows_member)
  then show "\<exists>c. customer_id (fst j) = Some c"
    by (rule base_data_customer [OF from_base_data(2)])
next
  fix j c
  assume "j \<in> set (asset_rows d s e (Some a))" and c: "customer_id (fst j) = Some c"
  then have j: "j \<in> set (asset_from d s e)" "customer_id (fst j) = Some c"
      "asset_type (fst j) = Some a"
    by (simp_all add: asset_rows_member)
  show "is_new s e j \<longleftrightarrow>
          length (deposit_times_asset d c a) = 1
          \<and> (\<exists>f. sql_min (deposit_times_asset d c a) = Some f \<and> between_date f s e)"
    by (rule asset_labels(2) [OF j])
  show "ds_customer j = Some c" if "is_new s e j"
    using asset_labels(3) [OF j] that by simp
  show "c' = c" if "ds_customer j = Some c'" for c'
    using that by (rule asset_labels(4) [OF j])
qed

lemma customers_no_label:
  "recurring_customers (asset_rows d s e None) = {}"
  "new_customers s e (asset_rows d s e None) = {}"
proof -
  have n: "ds_customer j = None" if "j \<in> set (asset_rows d s e None)" for j
    using that by (auto simp: asset_rows_member intro: asset_no_label_labels(3))
  show "recurring_customers (asset_rows d s e None) = {}"
    using n by (fastforce simp: recurring_customers_def set_distinct_where)
  show "new_customers s e (asset_rows d s e None) = {}"
    using n by (fastforce simp: new_customers_def set_distinct_where)
qed

lemma asset_customers_disjoint:
  "recurring_customers (asset_rows d s e k) \<inter> new_customers s e (asset_rows d s e k) = {}"
  "recurring_customers (asset_rows d s e k) \<subseteq> transacting_customers (asset_rows d s e k)"
  "new_customers s e (asset_rows d s e k) \<subseteq> transacting_customers (asset_rows d s e k)"
  by (cases k; auto simp: customers_no_label recurring_customers_asset new_customers_asset)+

lemma general_customers_disjoint:
  "recurring_customers (general_from d s e) \<inter> new_customers s e (general_from d s e) = {}"
  "recurring_customers (general_from d s e) \<subseteq> transacting_customers (general_from d s e)"
  "new_customers s e (general_from d s e) \<subseteq> transacting_customers (general_from d s e)"
  by (auto simp: recurring_customers_general new_customers_general)

lemma load_asset_metrics_rows:
  assumes "r \<in> set (load_asset_metrics d s e)"
  shows "r = asset_select s e (am_asset_type r) (asset_rows d s e (am_asset_type r))"
  using load_asset_metrics_group [OF assms]
  by (simp add: asset_rows_def asset_rows_eq)

subsection \<open>The first example ledger, evaluated\<close>

lemma ledger1_tables:
  "transactions ledger1 =
         [ \<lparr> t_id = 1, t_tx_type = ''deposit'', t_metadata = None, t_amount = 100,
             t_usd_amount = 10, t_updated_at = 86400, t_status = ''success'',
             t_provider_number = Some ''MTN'', t_investment_plan_id = None, t_plan_id = Some 10 \<rparr>,
           \<lparr> t_id = 2, t_tx_type = ''withdrawal'', t_metadata = None, t_amount = 30,
             t_usd_amount = 3, t_updated_at = 172800, t_status = ''success'',
             t_provider_number = Some ''MTN'', t_investment_plan_id = None, t_plan_id = Some 10 \<rparr>,
           \<lparr> t_id = 3, t_tx_type = ''withdrawal'',
             t_metadata = Some ''MONTHLY Maintenance fee deduction, June'', t_amount = 2,
             t_usd_amount = 1, t_updated_at = 172800, t_status = ''success'',
             t_provider_number = Some ''MTN'', t_investment_plan_id = None, t_plan_id = Some 10 \<rparr>,
           \<lparr> t_id = 4, t_tx_type = ''deposit'', t_metadata = None, t_amount = 500,
             t_usd_amount = 50, t_updated_at = 172800, t_status = ''success'',
             t_provider_number = Some ''MTN'', t_investment_plan_id = None, t_plan_id = Some 11 \<rparr> ]"
  "investment_plans ledger1 = Map.empty"
  "plans ledger1 = [10 \<mapsto> \<lparr> p_user_id = Some 1, p_plan_option = Some ''Treasury'' \<rparr>,
                11 \<mapsto> \<lparr> p_user_id = Some 2, p_plan_option = Some ''goal savings'' \<rparr>]"
  "users ledger1 = [1 \<mapsto> \<lparr> u_restricted = Some False \<rparr>, 2 \<mapsto> \<lparr> u_restricted = Some True \<rparr>]"
  "assets ledger1 = Map.empty"
  by (simp_all add: ledger1_def fee_deduction_def)

lemma fee_deduction_marked: "has_marker fee_deduction"
  by (simp add: fee_deduction_def classifier_defs)

lemma ledger1_base_data:
  "base_data ledger1 =
     [ ledger1_deposit_row,
       \<lparr> transaction_id = 2, transaction_type = ''withdrawal'', asset_type = Some ''Treasury'',
         customer_id = Some 1, first_transaction_date = Some 86400, transaction_date = 172800,
         ghs_amount = 30, usd_amount = 3 \<rparr>,
       \<lparr> transaction_id = 3, transaction_type = ''maintenance_fee'', asset_type = Some ''Treasury'',
         customer_id = Some 1, first_transaction_date = Some 86400, transaction_date = 172800,
         ghs_amount = 2, usd_amount = 1 \<rparr> ]"
  by (simp add: base_data_def base_where_def base_row_of_def join_ft_def first_transactions_def
      join_defs classifier_defs ledger1_tables ledger1_deposit_row_def)

lemma ledger1_summary:
  "depositors_summary ledger1 =
     [ \<lparr> ds_customer_id = Some 1, ds_deposit_count = 1, first_deposit_date = Some 86400,
         tx_days = 1 \<rparr> ]"
  "depositors_summary_asset ledger1 =
     [ \<lparr> ds_customer_id = Some 1, ds_deposit_count = 1, first_deposit_date = Some 86400,
         tx_days = 1, ds_asset_type = Some ''Treasury'' \<rparr> ]"
  by (simp_all add: depositors_summary_def depositors_summary_asset_def deposits_def
      ledger1_base_data ledger1_deposit_row_def)

lemma ledger1_general_from:
  "general_from ledger1 0 10 =
     map (\<lambda>r. (r, Some \<lparr> ds_customer_id = Some 1, ds_deposit_count = 1,
                          first_deposit_date = Some 86400, tx_days = 1 \<rparr>))
       (base_data ledger1)"
  by (simp add: general_from_def join_ds_def ledger1_summary ledger1_base_data window_defs
      ledger1_deposit_row_def)

lemma ledger1_asset_from:
  "asset_from ledger1 0 10 =
     map (\<lambda>r. (r, Some \<lparr> ds_customer_id = Some 1, ds_deposit_count = 1,
                          first_deposit_date = Some 86400, tx_days = 1,
                          ds_asset_type = Some ''Treasury'' \<rparr>))
       (base_data ledger1)"
  by (simp add: asset_from_def join_ds_asset_def ledger1_summary ledger1_base_data window_defs
      ledger1_deposit_row_def)

lemma ledger1_general:
  "load_general_metrics ledger1 0 10 =
     \<lparr> deposit_count = 1, deposit_value_ghs = Some 100, deposit_value_usd = Some 10,
       withdrawal_count = 1, withdrawal_value_ghs = Some 30, withdrawal_value_usd = Some 3,
       aum_ghs = Some 70, aum_usd = Some 7,
       total_depositors = 1, recurring_depositors = 0, new_depositors = 1,
       avg_deposit_value_ghs = Some 100, avg_deposit_value_usd = Some 10,
       avg_withdrawal_value_ghs = Some 30, avg_withdrawal_value_usd = Some 3,
       asset_type_count = 1, total_withdrawers = 1 \<rparr>"
  by (simp add: load_general_metrics_def ledger1_general_from ledger1_base_data general_select_def
      aggregate_defs window_defs ledger1_deposit_row_def)

lemma ledger1_assets: "load_asset_metrics ledger1 0 10 = [treasury_row]"
  by (simp add: load_asset_metrics_def asset_metrics_cte_def ledger1_asset_from ledger1_base_data
      asset_select_def estimated_revenue_of_def aggregate_defs window_defs treasury_row_def
      ledger1_deposit_row_def)

lemma ledger1_asset_types: "set (get_asset_types ledger1 0 10) = {''Treasury'', ''goal savings''}"
  by (simp add: get_asset_types_def join_defs window_defs ledger1_tables insert_commute)

lemma ledger_c2_tables:
  "transactions ledger_c2 =
         [ \<lparr> t_id = 1, t_tx_type = ''deposit'', t_metadata = None, t_amount = 100,
             t_usd_amount = 10, t_updated_at = 100, t_status = ''success'',
             t_provider_number = Some ''Flex Dollar'', t_investment_plan_id = None,
             t_plan_id = Some 10 \<rparr>,
           \<lparr> t_id = 2, t_tx_type = ''deposit'', t_metadata = None, t_amount = 50,
             t_usd_amount = 5, t_updated_at = 200000, t_status = ''success'',
             t_provider_number = Some ''MTN'', t_investment_plan_id = None,
             t_plan_id = Some 10 \<rparr> ]"
  "investment_plans ledger_c2 = Map.empty"
  "plans ledger_c2 = [10 \<mapsto> \<lparr> p_user_id = Some 1, p_plan_option = Some ''Treasury'' \<rparr>]"
  "users ledger_c2 = [1 \<mapsto> \<lparr> u_restricted = Some False \<rparr>]"
  "assets ledger_c2 = Map.empty"
  by (simp_all add: ledger_c2_def)

lemma ledger1_late_window: "qualifying_in_window ledger1 20 30 = []"
  by (simp add: qualifying_in_window_def ledger1_tables window_defs)


subsection \<open>The other example ledgers, evaluated\<close>

lemma ledger2_tables:
  "transactions ledger2 =
         [ \<lparr> t_id = 1, t_tx_type = ''deposit'', t_metadata = None, t_amount = 100,
             t_usd_amount = 10, t_updated_at = 86400, t_status = ''success'',
             t_provider_number = Some ''MTN'', t_investment_plan_id = None, t_plan_id = Some 10 \<rparr>,
           \<lparr> t_id = 2, t_tx_type = ''deposit'', t_metadata = None, t_amount = 50,
             t_usd_amount = 5, t_updated_at = 864000, t_status = ''success'',
             t_provider_number = Some ''MTN'', t_investment_plan_id = None, t_plan_id = Some 10 \<rparr>,
           \<lparr> t_id = 3, t_tx_type = ''withdrawal'', t_metadata = None, t_amount = 30,
             t_usd_amount = 3, t_updated_at = 1036800, t_status = ''success'',
             t_provider_number = Some ''MTN'', t_investment_plan_id = None, t_plan_id = Some 10 \<rparr> ]"
  "investment_plans ledger2 = Map.empty"
  "plans ledger2 = [10 \<mapsto> \<lparr> p_user_id = Some 7, p_plan_option = Some ''Treasury'' \<rparr>]"
  "users ledger2 = [7 \<mapsto> \<lparr> u_restricted = Some False \<rparr>]"
  "assets ledger2 = Map.empty"
  by (simp_all add: ledger2_def)

lemma ledger2_base_data:
  "base_data ledger2 =
     [ \<lparr> transaction_id = 1, transaction_type = ''deposit'', asset_type = Some ''Treasury'',
         customer_id = Some 7, first_transaction_date = Some 86400, transaction_date = 86400,
         ghs_amount = 100, usd_amount = 10 \<rparr>,
       fst ledger2_deposit_row, fst ledger2_withdrawal_row ]"
  by (simp add: base_data_def base_where_def base_row_of_def join_ft_def first_transactions_def
      join_defs classifier_defs ledger2_tables ledger2_deposit_row_def ledger2_withdrawal_row_def)

lemma ledger2_deposits:
  "deposits ledger2 =
     [ \<lparr> transaction_id = 1, transaction_type = ''deposit'', asset_type = Some ''Treasury'',
         customer_id = Some 7, first_transaction_date = Some 86400, transaction_date = 86400,
         ghs_amount = 100, usd_amount = 10 \<rparr>,
       fst ledger2_deposit_row ]"
  by (simp add: deposits_def ledger2_base_data ledger2_deposit_row_def ledger2_withdrawal_row_def)

lemma ledger2_summary: "depositors_summary ledger2 = [ledger2_summary_row]"
  by (simp add: depositors_summary_def ledger2_deposits ledger2_deposit_row_def
      ledger2_summary_row_def)

lemma ledger2_general_from:
  "general_from ledger2 5 20 = [ledger2_deposit_row, ledger2_withdrawal_row]"
  "general_from ledger2 11 20 = [ledger2_withdrawal_row]"
  by (simp_all add: general_from_def join_ds_def ledger2_summary ledger2_base_data window_defs
      ledger2_deposit_row_def ledger2_withdrawal_row_def ledger2_summary_row_def)

lemma ledger2_deposit_times:
  "deposit_times ledger2 7 = [86400, 864000]"
  "deposit_times_in_window ledger2 5 20 7 = [864000]"
  by (simp_all add: deposit_times_def deposit_times_in_window_def ledger2_deposits
      ledger2_deposit_row_def window_defs)

lemma ledger2_counts:
  "recurring_depositors (load_general_metrics ledger2 5 20) = 1"
  "new_depositors (load_general_metrics ledger2 5 20) = 0"
  "total_depositors (load_general_metrics ledger2 5 20) = 1"
  "recurring_depositors (load_general_metrics ledger2 11 20) = 1"
  "new_depositors (load_general_metrics ledger2 11 20) = 0"
  "total_depositors (load_general_metrics ledger2 11 20) = 0"
  by (simp_all add: load_general_metrics_def ledger2_general_from general_select_def
      aggregate_defs window_defs ledger2_deposit_row_def ledger2_withdrawal_row_def
      ledger2_summary_row_def)

lemma ledger2_customers:
  "recurring_customers (general_from ledger2 11 20) = {7}"
  "depositing_customers (general_from ledger2 11 20) = {}"
  by (simp_all add: recurring_customers_def depositing_customers_def ledger2_general_from
      aggregate_defs ledger2_withdrawal_row_def ledger2_summary_row_def)

lemma ledger2_summary_asset:
  "depositors_summary_asset ledger2 =
     [ \<lparr> ds_customer_id = Some 7, ds_deposit_count = 2, first_deposit_date = Some 86400,
         tx_days = 2, ds_asset_type = Some ''Treasury'' \<rparr> ]"
  by (simp add: depositors_summary_asset_def ledger2_deposits ledger2_deposit_row_def)

lemma ledger2_asset_from:
  "asset_from ledger2 11 20 =
     [ (fst ledger2_withdrawal_row,
        Some \<lparr> ds_customer_id = Some 7, ds_deposit_count = 2, first_deposit_date = Some 86400,
               tx_days = 2, ds_asset_type = Some ''Treasury'' \<rparr>) ]"
  by (simp add: asset_from_def join_ds_asset_def ledger2_summary_asset ledger2_base_data
      window_defs ledger2_deposit_row_def ledger2_withdrawal_row_def)

lemma ledger2_sums:
  "deposit_value_ghs (load_general_metrics ledger2 11 20) = None"
  "deposit_value_usd (load_general_metrics ledger2 11 20) = None"
  "withdrawal_value_ghs (load_general_metrics ledger2 11 20) = Some 30"
  "withdrawal_value_usd (load_general_metrics ledger2 11 20) = Some 3"
  "aum_ghs (load_general_metrics ledger2 11 20) = None"
  "aum_usd (load_general_metrics ledger2 11 20) = None"
  by (simp_all add: load_general_metrics_def ledger2_general_from general_select_def
      aggregate_defs ledger2_withdrawal_row_def)

lemma ledger2_asset_sums:
  "map am_asset_type (load_asset_metrics ledger2 11 20) = [Some ''Treasury'']"
  "map deposit_value_ghs (load_asset_metrics ledger2 11 20) = [None]"
  "map withdrawal_value_ghs (load_asset_metrics ledger2 11 20) = [Some 30]"
  "map aum_ghs (load_asset_metrics ledger2 11 20) = [None]"
  "map aum_usd (load_asset_metrics ledger2 11 20) = [None]"
  by (simp_all add: load_asset_metrics_def asset_metrics_cte_def ledger2_asset_from
      asset_select_def aggregate_defs ledger2_withdrawal_row_def)

lemma ledger4_tables:
  "transactions ledger4 =
         [ \<lparr> t_id = 1, t_tx_type = ''withdrawal'', t_metadata = None, t_amount = 30,
             t_usd_amount = 3, t_updated_at = 1036800, t_status = ''success'',
             t_provider_number = Some ''MTN'', t_investment_plan_id = None, t_plan_id = Some 10 \<rparr>,
           \<lparr> t_id = 2, t_tx_type = ''deposit'', t_metadata = None, t_amount = 50,
             t_usd_amount = 5, t_updated_at = 1771200, t_status = ''success'',
             t_provider_number = Some ''MTN'', t_investment_plan_id = None, t_plan_id = Some 10 \<rparr> ]"
  "investment_plans ledger4 = Map.empty"
  "plans ledger4 = [10 \<mapsto> \<lparr> p_user_id = Some 9, p_plan_option = Some ''Treasury'' \<rparr>]"
  "users ledger4 = [9 \<mapsto> \<lparr> u_restricted = Some False \<rparr>]"
  "assets ledger4 = Map.empty"
  by (simp_all add: ledger4_def)

lemma ledger4_base_data:
  "base_data ledger4 =
     [ \<lparr> transaction_id = 1, transaction_type = ''withdrawal'', asset_type = Some ''Treasury'',
         customer_id = Some 9, first_transaction_date = Some 1036800,
         transaction_date = 1036800, ghs_amount = 30, usd_amount = 3 \<rparr>,
       \<lparr> transaction_id = 2, transaction_type = ''deposit'', asset_type = Some ''Treasury'',
         customer_id = Some 9, first_transaction_date = Some 1036800,
         transaction_date = 1771200, ghs_amount = 50, usd_amount = 5 \<rparr> ]"
  by (simp add: base_data_def base_where_def base_row_of_def join_ft_def first_transactions_def
      join_defs classifier_defs ledger4_tables)

lemma ledger4_summary:
  "depositors_summary ledger4 =
     [ \<lparr> ds_customer_id = Some 9, ds_deposit_count = 1, first_deposit_date = Some 1771200,
         tx_days = 1 \<rparr> ]"
  by (simp add: depositors_summary_def deposits_def ledger4_base_data)

lemma ledger4_general_from:
  "general_from ledger4 11 20 =
     [ (\<lparr> transaction_id = 1, transaction_type = ''withdrawal'', asset_type = Some ''Treasury'',
          customer_id = Some 9, first_transaction_date = Some 1036800,
          transaction_date = 1036800, ghs_amount = 30, usd_amount = 3 \<rparr>,
        Some \<lparr> ds_customer_id = Some 9, ds_deposit_count = 1,
               first_deposit_date = Some 1771200, tx_days = 1 \<rparr>) ]"
  by (simp add: general_from_def join_ds_def ledger4_summary ledger4_base_data window_defs)

lemma ledger4_counts:
  "new_depositors (load_general_metrics ledger4 11 20) = 1"
  "total_depositors (load_general_metrics ledger4 11 20) = 0"
  by (simp_all add: load_general_metrics_def ledger4_general_from general_select_def
      aggregate_defs window_defs)

lemma ledger4_customers:
  "new_customers 11 20 (general_from ledger4 11 20) = {9}"
  "depositing_customers (general_from ledger4 11 20) = {}"
  by (simp_all add: new_customers_def depositing_customers_def ledger4_general_from
      aggregate_defs window_defs)

lemma ledger3_tables:
  "transactions ledger3 =
         [ \<lparr> t_id = 1, t_tx_type = ''deposit'', t_metadata = None, t_amount = 100,
             t_usd_amount = 10, t_updated_at = 86400, t_status = ''success'',
             t_provider_number = Some ''MTN'', t_investment_plan_id = Some 20, t_plan_id = None \<rparr> ]"
  "investment_plans ledger3 =
         [20 \<mapsto> \<lparr> ip_user_id = Some 1, ip_plan_option = Some ''fixed'', ip_asset_id = None \<rparr>]"
  "plans ledger3 = Map.empty"
  "users ledger3 = [1 \<mapsto> \<lparr> u_restricted = Some False \<rparr>]"
  "assets ledger3 = Map.empty"
  by (simp_all add: ledger3_def)

lemma ledger3_base_data:
  "base_data ledger3 =
     [ \<lparr> transaction_id = 1, transaction_type = ''deposit'', asset_type = None,
         customer_id = Some 1, first_transaction_date = Some 86400, transaction_date = 86400,
         ghs_amount = 100, usd_amount = 10 \<rparr> ]"
  by (simp add: base_data_def base_where_def base_row_of_def join_ft_def first_transactions_def
      join_defs classifier_defs ledger3_tables)

lemma ledger3_asset_from:
  "asset_from ledger3 0 10 =
     [ (\<lparr> transaction_id = 1, transaction_type = ''deposit'', asset_type = None,
          customer_id = Some 1, first_transaction_date = Some 86400, transaction_date = 86400,
          ghs_amount = 100, usd_amount = 10 \<rparr>, None) ]"
  by (simp add: asset_from_def join_ds_asset_def ledger3_base_data window_defs find_None_iff)

lemma ledger3_general_from:
  "map fst (general_from ledger3 0 10) = base_data ledger3"
  by (simp add: general_from_def ledger3_base_data window_defs)

lemma ledger3_users_by_asset: "load_total_users_by_asset_type ledger3 0 10 = []"
  by (simp add: load_total_users_by_asset_type_def users_where_def join_defs ledger3_tables
      window_defs)

lemma ledger_c2_first_transactions: "first_transactions ledger_c2 = [(Some 1, Some 100)]"
  by (simp add: first_transactions_def join_defs ledger_c2_tables)

section \<open>Properties of the queries\<close>

subsection \<open>Net position\<close>

text \<open>
  Claim C4. The reported AUM is to be the deposit sum minus the withdrawal sum in each
  currency. The queries write \<^verbatim>\<open>SUM(deposits) - COALESCE(SUM(withdrawals), 0)\<close>: only
  the withdrawal side is coalesced. On \<open>ledger2\<close> with the window from day 11 to day 20
  the only qualifying transaction is a withdrawal of 30 (3 in USD): overall and in the
  row of the label, the deposit sum is absent, the withdrawal sum is 30, and the AUM is
  absent instead of the difference.
\<close>

theorem aum_absent_without_deposit:
  "deposit_value_ghs (load_general_metrics ledger2 11 20) = None
   \<and> withdrawal_value_ghs (load_general_metrics ledger2 11 20) = Some 30
   \<and> aum_ghs (load_general_metrics ledger2 11 20) = None
   \<and> deposit_value_usd (load_general_metrics ledger2 11 20) = None
   \<and> withdrawal_value_usd (load_general_metrics ledger2 11 20) = Some 3
   \<and> aum_usd (load_general_metrics ledger2 11 20) = None
   \<and> map am_asset_type (load_asset_metrics ledger2 11 20) = [Some ''Treasury'']
   \<and> map deposit_value_ghs (load_asset_metrics ledger2 11 20) = [None]
   \<and> map withdrawal_value_ghs (load_asset_metrics ledger2 11 20) = [Some 30]
   \<and> map aum_ghs (load_asset_metrics ledger2 11 20) = [None]"
  by (simp add: ledger2_sums ledger2_asset_sums)

subsection \<open>Maintenance-fee override\<close>



subsection \<open>Estimated revenue\<close>

text \<open>
  Claim C6. In every row of the asset breakdown whose label is not one of the labels of
  the fee table (the absent label included), the estimated revenue is exactly 0. The query
  is a total function of the ledger and the window: no label makes it fail.
\<close>

theorem revenue_zero_outside_fee_table:
  "r \<in> set (load_asset_metrics d s e) \<Longrightarrow> am_asset_type r \<notin> Some ` set fee_table
     \<Longrightarrow> estimated_revenue r = 0"
  by (auto simp: load_asset_metrics_row asset_select_def estimated_revenue_of_def fee_table_def)

theorem revenue_zero_outside_fee_table_witness:
  "treasury_row \<in> set (load_asset_metrics ledger1 0 10)
   \<and> am_asset_type treasury_row = Some ''Treasury''
   \<and> deposit_value_usd treasury_row = Some 10
   \<and> estimated_revenue treasury_row = 0"
proof -
  have m: "treasury_row \<in> set (load_asset_metrics ledger1 0 10)"
    by (simp add: ledger1_assets)
  have l: "am_asset_type treasury_row = Some ''Treasury''"
      and v: "deposit_value_usd treasury_row = Some 10"
    by (simp_all add: treasury_row_def)
  have "am_asset_type treasury_row \<notin> Some ` set fee_table"
    by (simp add: l fee_table_def)
  from revenue_zero_outside_fee_table [OF m this] m l v show ?thesis
    by simp
qed

subsection \<open>Empty windows\<close>

text \<open>
  Claim C9. When no transaction of the ledger passes the inclusion test inside the
  window, the overall result has every count equal to 0 and every sum, the two net
  positions and every average absent; no average divides by a zero count, and the
  dashboard shows each absent average as \<^verbatim>\<open>0.00\<close>.
\<close>

theorem empty_window_metrics:
  assumes "qualifying_in_window d s e = []"
  shows "load_general_metrics d s e =
           \<lparr> deposit_count = 0, deposit_value_ghs = None, deposit_value_usd = None,
             withdrawal_count = 0, withdrawal_value_ghs = None, withdrawal_value_usd = None,
             aum_ghs = None, aum_usd = None,
             total_depositors = 0, recurring_depositors = 0, new_depositors = 0,
             avg_deposit_value_ghs = None, avg_deposit_value_usd = None,
             avg_withdrawal_value_ghs = None, avg_withdrawal_value_usd = None,
             asset_type_count = 0, total_withdrawers = 0 \<rparr>
         \<and> fmt render (avg_deposit_value_ghs (load_general_metrics d s e)) = ''0.00''
         \<and> fmt render (avg_deposit_value_usd (load_general_metrics d s e)) = ''0.00''
         \<and> fmt render (avg_withdrawal_value_ghs (load_general_metrics d s e)) = ''0.00''
         \<and> fmt render (avg_withdrawal_value_usd (load_general_metrics d s e)) = ''0.00''"
  by (simp add: load_general_metrics_def general_from_eq assms general_select_def
      count_where_def sum_where_def avg_where_def count_distinct_where_def distinct_where_def
      null_minus_def fmt_def)

theorem empty_window_metrics_witness:
  "qualifying_in_window ledger1 20 30 = []
   \<and> deposit_count (load_general_metrics ledger1 20 30) = 0
   \<and> withdrawal_count (load_general_metrics ledger1 20 30) = 0
   \<and> deposit_value_ghs (load_general_metrics ledger1 20 30) = None
   \<and> avg_deposit_value_ghs (load_general_metrics ledger1 20 30) = None
   \<and> avg_withdrawal_value_usd (load_general_metrics ledger1 20 30) = None"
  using empty_window_metrics [OF ledger1_late_window] ledger1_late_window
  by simp

subsection \<open>Asset-type listing\<close>

text \<open>
  Claim C10. For every window, every label that is present in a row of the asset
  breakdown is in the list returned by \<^verbatim>\<open>get_asset_types\<close>, whose test (status and
  window only) is weaker than the inclusion test of the breakdown; and there are a
  ledger and a window where the listing has a label that the breakdown has not.
\<close>

theorem asset_labels_are_listed:
  "(\<forall>r \<in> set (load_asset_metrics d s e). \<forall>l. am_asset_type r = Some l
        \<longrightarrow> l \<in> set (get_asset_types d s e))
   \<and> (\<exists>d' s' e' l. l \<in> set (get_asset_types d' s' e')
          \<and> Some l \<notin> am_asset_type ` set (load_asset_metrics d' s' e'))"
proof
  show "\<forall>r \<in> set (load_asset_metrics d s e). \<forall>l. am_asset_type r = Some l
        \<longrightarrow> l \<in> set (get_asset_types d s e)"
  proof (intro ballI allI impI)
    fix r l
    assume "r \<in> set (load_asset_metrics d s e)" and l: "am_asset_type r = Some l"
    then obtain j where j: "j \<in> set (asset_from d s e)"
      and r: "r = asset_select s e (bd_asset_type j)
                    (filter (\<lambda>i. bd_asset_type i = bd_asset_type j) (asset_from d s e))"
      by (auto simp: load_asset_metrics_row)
    from l r have "bd_asset_type j = Some l"
      by (simp add: asset_select_def)
    with j show "l \<in> set (get_asset_types d s e)"
      by (rule asset_label_listed)
  qed
  have "''goal savings'' \<in> set (get_asset_types ledger1 0 10)"
    by (simp add: ledger1_asset_types)
  moreover have "Some ''goal savings'' \<notin> am_asset_type ` set (load_asset_metrics ledger1 0 10)"
    by (simp add: ledger1_assets treasury_row_def)
  ultimately show "\<exists>d' s' e' l. l \<in> set (get_asset_types d' s' e')
          \<and> Some l \<notin> am_asset_type ` set (load_asset_metrics d' s' e')"
    by blast
qed

theorem asset_labels_are_listed_witness:
  "treasury_row \<in> set (load_asset_metrics ledger1 0 10)
   \<and> am_asset_type treasury_row = Some ''Treasury''
   \<and> ''Treasury'' \<in> set (get_asset_types ledger1 0 10)"
proof -
  have m: "treasury_row \<in> set (load_asset_metrics ledger1 0 10)"
    by (simp add: ledger1_assets)
  have l: "am_asset_type treasury_row = Some ''Treasury''"
    by (simp add: treasury_row_def)
  from asset_labels_are_listed [of ledger1 0 10] m l
  have "''Treasury'' \<in> set (get_asset_types ledger1 0 10)"
    by blast
  with m l show ?thesis by simp
qed

subsection \<open>First transaction date\<close>

text \<open>
  Claim C2, as stated: the first transaction date of a customer is the least timestamp
  of the customer's transactions that pass the whole inclusion test. It fails on
  \<open>ledger_c2\<close>: the row of customer 1 in \<^verbatim>\<open>first_transactions\<close> and the only row of
  \<^verbatim>\<open>base_data\<close> carry the timestamp 100 of the deposit
  made through the excluded provider, while the customer's only qualifying transaction
  has the timestamp 200000.
\<close>

theorem first_transaction_date_counterexample:
  "first_transactions ledger_c2 = [(Some 1, Some 100)]
   \<and> map customer_id (base_data ledger_c2) = [Some 1]
   \<and> map first_transaction_date (base_data ledger_c2) = [Some 100]
   \<and> qualifying_times ledger_c2 1 = [200000]
   \<and> sql_min (qualifying_times ledger_c2 1) = Some 200000"
  by (simp add: base_data_def base_where_def base_row_of_def join_ft_def
      ledger_c2_first_transactions join_defs classifier_defs qualifying_times_def
      ledger_c2_tables)

text \<open>
  Claim C2, amended. In every row of \<^verbatim>\<open>first_transactions\<close>, and in every row of
  \<^verbatim>\<open>base_data\<close> that reads it, the first transaction date is the least timestamp over
  all transactions with status \<^verbatim>\<open>success\<close> whose plan or investment plan names the
  customer, whatever their provider, with no window bound.
\<close>

theorem first_transaction_date_over_success:
  "(\<forall>kv \<in> set (first_transactions d).
      snd kv = Some (Min (set (success_times d (fst kv)))))
   \<and> (\<forall>r \<in> set (base_data d).
      first_transaction_date r = Some (Min (set (success_times d (customer_id r)))))"
proof (intro conjI ballI)
  fix kv
  assume "kv \<in> set (first_transactions d)"
  then obtain t where t: "t \<in> set (transactions d)" "t_status t = ''success''"
    and kv: "kv = (coalesce_user_id d t, sql_min (success_times d (coalesce_user_id d t)))"
    by (auto simp: first_transactions_def success_times_def)
  from t have "success_times d (coalesce_user_id d t) \<noteq> []"
    by (auto simp: success_times_def filter_empty_conv)
  then show "snd kv = Some (Min (set (success_times d (fst kv))))"
    by (simp add: kv sql_min_eq)
next
  fix r
  assume "r \<in> set (base_data d)"
  then obtain t where t: "t \<in> set (transactions d)" "base_where d t"
    and r: "r = base_row_of d t"
    by (auto simp: base_data_def)
  from base_where_owner [OF t(2)] obtain c where st: "t_status t = ''success''"
    and c: "u_id d t = Some c" "coalesce_user_id d t = Some c"
    by blast
  have ne: "success_times d (Some c) \<noteq> []"
    using t(1) st c(2) by (auto simp: success_times_def filter_empty_conv)
  have "Some c \<in> coalesce_user_id d ` {t \<in> set (transactions d). t_status t = ''success''}"
    using t(1) st c(2) by force
  then have "join_ft d t = sql_min (success_times d (Some c))"
    using c(1) by (simp add: join_ft_def map_of_first_transactions)
  also have "\<dots> = Some (Min (set (success_times d (Some c))))"
    using ne by (simp add: sql_min_eq)
  finally show "first_transaction_date r = Some (Min (set (success_times d (customer_id r))))"
    by (simp add: r c)
qed

theorem first_transaction_date_over_success_witness:
  "ledger1_deposit_row \<in> set (base_data ledger1)
   \<and> customer_id ledger1_deposit_row = Some 1
   \<and> success_times ledger1 (Some 1) = [86400, 172800, 172800]
   \<and> first_transaction_date ledger1_deposit_row = Some 86400"
proof -
  have m: "ledger1_deposit_row \<in> set (base_data ledger1)"
    by (simp add: ledger1_base_data)
  have c: "customer_id ledger1_deposit_row = Some 1"
    by (simp add: ledger1_deposit_row_def)
  have t: "success_times ledger1 (Some 1) = [86400, 172800, 172800]"
    by (simp add: success_times_def join_defs ledger1_tables)
  from first_transaction_date_over_success [of ledger1] m
  have "first_transaction_date ledger1_deposit_row =
      Some (Min (set (success_times ledger1 (customer_id ledger1_deposit_row))))"
    by blast
  with m c t show ?thesis
    by simp
qed

subsection \<open>Depositor labels\<close>

text \<open>
  Claim C1, as stated: the \<^verbatim>\<open>tx_days\<close> that labels a customer counts the distinct
  timestamps of the customer's deposits inside the window. It fails on \<open>ledger2\<close> with
  the window from day 5 to day 20: customer 7 has one deposit timestamp inside the
  window, the summary row carries \<^verbatim>\<open>tx_days = 2\<close>, and the customer is counted as
  recurring, not as new.
\<close>

theorem tx_days_in_window_counterexample:
  "deposit_times_in_window ledger2 5 20 7 = [864000]
   \<and> map tx_days (depositors_summary ledger2) = [2]
   \<and> recurring_depositors (load_general_metrics ledger2 5 20) = 1
   \<and> new_depositors (load_general_metrics ledger2 5 20) = 0"
  by (simp add: ledger2_deposit_times ledger2_summary ledger2_counts ledger2_summary_row_def)

text \<open>
  Claim C1, amended. For every window and every row read by the final query (overall,
  and per asset-type label in the breakdown), the joined \<^verbatim>\<open>tx_days\<close> of the row's customer
  is the number of distinct timestamps among all of the customer's qualifying deposits
  (with that label, in the breakdown), inside the window or not, and the joined first
  deposit date is the least of them; the customer counts as recurring exactly when this
  number exceeds 1, and as new exactly when it is 1 and the date of that first deposit
  lies between the start and the end date. Neither label reads the first transaction
  date.
\<close>

theorem labels_from_all_deposits:
  "(\<forall>j \<in> set (general_from d s e). \<forall>c. customer_id (fst j) = Some c \<longrightarrow>
      (case snd j of
         None \<Rightarrow> deposit_times d c = []
       | Some ds \<Rightarrow> tx_days ds = length (deposit_times d c)
           \<and> first_deposit_date ds = sql_min (deposit_times d c))
      \<and> (is_recurring j \<longleftrightarrow> 1 < length (deposit_times d c))
      \<and> (is_new s e j \<longleftrightarrow>
            length (deposit_times d c) = 1
            \<and> (\<exists>f. sql_min (deposit_times d c) = Some f \<and> between_date f s e)))
   \<and> (\<forall>j \<in> set (asset_from d s e). \<forall>c a.
        customer_id (fst j) = Some c \<longrightarrow> asset_type (fst j) = Some a \<longrightarrow>
      (case snd j of
         None \<Rightarrow> deposit_times_asset d c a = []
       | Some ds \<Rightarrow> tx_days ds = length (deposit_times_asset d c a)
           \<and> first_deposit_date ds = sql_min (deposit_times_asset d c a))
      \<and> (is_recurring j \<longleftrightarrow> 1 < length (deposit_times_asset d c a))
      \<and> (is_new s e j \<longleftrightarrow>
            length (deposit_times_asset d c a) = 1
            \<and> (\<exists>f. sql_min (deposit_times_asset d c a) = Some f \<and> between_date f s e)))"
proof (intro conjI ballI allI impI)
  fix j c
  assume j: "j \<in> set (general_from d s e)" "customer_id (fst j) = Some c"
  show "case snd j of
         None \<Rightarrow> deposit_times d c = []
       | Some ds \<Rightarrow> tx_days ds = length (deposit_times d c)
           \<and> first_deposit_date ds = sql_min (deposit_times d c)"
    by (simp add: general_row_summary [OF j])
  show "is_recurring j \<longleftrightarrow> 1 < length (deposit_times d c)"
    by (rule general_labels(1) [OF j])
  show "is_new s e j \<longleftrightarrow>
            length (deposit_times d c) = 1
            \<and> (\<exists>f. sql_min (deposit_times d c) = Some f \<and> between_date f s e)"
    by (rule general_labels(2) [OF j])
next
  fix j c a
  assume j: "j \<in> set (asset_from d s e)" "customer_id (fst j) = Some c"
    "asset_type (fst j) = Some a"
  show "case snd j of
         None \<Rightarrow> deposit_times_asset d c a = []
       | Some ds \<Rightarrow> tx_days ds = length (deposit_times_asset d c a)
           \<and> first_deposit_date ds = sql_min (deposit_times_asset d c a)"
    by (simp add: asset_row_summary [OF j])
  show "is_recurring j \<longleftrightarrow> 1 < length (deposit_times_asset d c a)"
    by (rule asset_labels(1) [OF j])
  show "is_new s e j \<longleftrightarrow>
            length (deposit_times_asset d c a) = 1
            \<and> (\<exists>f. sql_min (deposit_times_asset d c a) = Some f \<and> between_date f s e)"
    by (rule asset_labels(2) [OF j])
qed

theorem labels_from_all_deposits_witness:
  "ledger2_deposit_row \<in> set (general_from ledger2 5 20)
   \<and> customer_id (fst ledger2_deposit_row) = Some 7
   \<and> deposit_times ledger2 7 = [86400, 864000]
   \<and> is_recurring ledger2_deposit_row
   \<and> \<not> is_new 5 20 ledger2_deposit_row"
proof -
  have m: "ledger2_deposit_row \<in> set (general_from ledger2 5 20)"
    by (simp add: ledger2_general_from)
  have c: "customer_id (fst ledger2_deposit_row) = Some 7"
    by (simp add: ledger2_deposit_row_def)
  from labels_from_all_deposits [of ledger2 5 20] m c
  have "is_recurring ledger2_deposit_row \<longleftrightarrow> 1 < length (deposit_times ledger2 7)"
    and "is_new 5 20 ledger2_deposit_row \<longleftrightarrow>
      length (deposit_times ledger2 7) = 1
      \<and> (\<exists>f. sql_min (deposit_times ledger2 7) = Some f \<and> between_date f 5 20)"
    by blast+
  with m c show ?thesis
    by (simp add: ledger2_deposit_times)
qed

text \<open>
  Claim C3, as stated: the customers counted as new and as recurring are disjoint and
  each among the customers counted in \<^verbatim>\<open>total_depositors\<close>. The inclusion fails on
  \<open>ledger2\<close> with the window from day 11 to day 20: customer 7 only withdraws inside the
  window, is counted as recurring, and no customer is counted as depositor. It fails for
  the new customers on \<open>ledger4\<close> with the same window: the only deposit of customer 9
  is at noon of the end day, after the midnight that bounds the rows of the window and
  on a date inside it; the customer withdraws inside the window, is counted as new, and
  no customer is counted as depositor.
\<close>

theorem depositor_subset_counterexample:
  "recurring_depositors (load_general_metrics ledger2 11 20) = 1
   \<and> total_depositors (load_general_metrics ledger2 11 20) = 0
   \<and> recurring_customers (general_from ledger2 11 20) = {7}
   \<and> depositing_customers (general_from ledger2 11 20) = {}
   \<and> new_depositors (load_general_metrics ledger4 11 20) = 1
   \<and> total_depositors (load_general_metrics ledger4 11 20) = 0
   \<and> new_customers 11 20 (general_from ledger4 11 20) = {9}
   \<and> depositing_customers (general_from ledger4 11 20) = {}"
  by (simp add: ledger2_counts ledger2_customers ledger4_counts ledger4_customers)

text \<open>
  Claim C3, amended. For every window, overall and in every row of the asset
  breakdown, the customers counted as new and those counted as recurring are disjoint,
  and each of them has at least one qualifying transaction, of any type, inside the
  window (with the row's label, in the breakdown). The three reported counts are the
  sizes of the sets of recurring, new and depositing customers.
\<close>

theorem new_recurring_disjoint:
  "recurring_customers (general_from d s e) \<inter> new_customers s e (general_from d s e) = {}
   \<and> recurring_customers (general_from d s e) \<subseteq> transacting_customers (general_from d s e)
   \<and> new_customers s e (general_from d s e) \<subseteq> transacting_customers (general_from d s e)
   \<and> recurring_depositors (load_general_metrics d s e) =
       card (recurring_customers (general_from d s e))
   \<and> new_depositors (load_general_metrics d s e) =
       card (new_customers s e (general_from d s e))
   \<and> total_depositors (load_general_metrics d s e) =
       card (depositing_customers (general_from d s e))
   \<and> (\<forall>r \<in> set (load_asset_metrics d s e).
        recurring_customers (asset_rows d s e (am_asset_type r))
          \<inter> new_customers s e (asset_rows d s e (am_asset_type r)) = {}
        \<and> recurring_customers (asset_rows d s e (am_asset_type r))
            \<subseteq> transacting_customers (asset_rows d s e (am_asset_type r))
        \<and> new_customers s e (asset_rows d s e (am_asset_type r))
            \<subseteq> transacting_customers (asset_rows d s e (am_asset_type r))
        \<and> recurring_depositors r =
            card (recurring_customers (asset_rows d s e (am_asset_type r)))
        \<and> new_depositors r =
            card (new_customers s e (asset_rows d s e (am_asset_type r)))
        \<and> total_depositors r =
            card (depositing_customers (asset_rows d s e (am_asset_type r))))"
proof -
  have g: "recurring_depositors (load_general_metrics d s e) =
       card (recurring_customers (general_from d s e))"
    "new_depositors (load_general_metrics d s e) =
       card (new_customers s e (general_from d s e))"
    "total_depositors (load_general_metrics d s e) =
       card (depositing_customers (general_from d s e))"
    by (simp_all add: load_general_metrics_def general_select_def count_distinct_card
        recurring_customers_def new_customers_def depositing_customers_def)
  have a: "recurring_depositors r =
            card (recurring_customers (asset_rows d s e (am_asset_type r)))
        \<and> new_depositors r =
            card (new_customers s e (asset_rows d s e (am_asset_type r)))
        \<and> total_depositors r =
            card (depositing_customers (asset_rows d s e (am_asset_type r)))"
    if "r \<in> set (load_asset_metrics d s e)" for r
  proof -
    note eq = load_asset_metrics_rows [OF that]
    show ?thesis
      using arg_cong [OF eq, of recurring_depositors] arg_cong [OF eq, of new_depositors]
        arg_cong [OF eq, of total_depositors]
      by (simp add: asset_select_sel count_distinct_card recurring_customers_def
          new_customers_def depositing_customers_def)
  qed
  show ?thesis
    using g a general_customers_disjoint asset_customers_disjoint
    by simp
qed

theorem new_recurring_disjoint_witness:
  "7 \<in> recurring_customers (general_from ledger2 11 20)
   \<and> 7 \<in> transacting_customers (general_from ledger2 11 20)
   \<and> 7 \<notin> new_customers 11 20 (general_from ledger2 11 20)
   \<and> card (recurring_customers (general_from ledger2 11 20)) = 1"
proof -
  have r: "7 \<in> recurring_customers (general_from ledger2 11 20)"
    by (simp add: ledger2_customers)
  have n: "recurring_depositors (load_general_metrics ledger2 11 20) = 1"
    by (simp add: ledger2_counts)
  from new_recurring_disjoint [of ledger2 11 20] r n show ?thesis
    by auto
qed

subsection \<open>The absent label in the asset breakdown\<close>

text \<open>
  Claim C7. The breakdown is to have no row with an absent label. On \<open>ledger3\<close> the only
  qualifying transaction has no label: \<^verbatim>\<open>load_asset_metrics\<close> returns one row, whose label
  is absent and which counts the deposit, while \<^verbatim>\<open>get_asset_types\<close> and
  \<^verbatim>\<open>load_total_users_by_asset_type\<close>, which test \<^verbatim>\<open>IS NOT NULL\<close>, return nothing.
\<close>

theorem absent_label_row:
  "map am_asset_type (load_asset_metrics ledger3 0 10) = [None]
   \<and> map deposit_count (load_asset_metrics ledger3 0 10) = [1]
   \<and> map deposit_value_ghs (load_asset_metrics ledger3 0 10) = [Some 100]
   \<and> get_asset_types ledger3 0 10 = []
   \<and> load_total_users_by_asset_type ledger3 0 10 = []"
  by (simp add: load_asset_metrics_def asset_metrics_cte_def ledger3_asset_from asset_select_def
      aggregate_defs get_asset_types_def join_defs ledger3_tables window_defs
      ledger3_users_by_asset)

subsection \<open>The transaction trend\<close>

text \<open>
  Claim C8. Trend points are to carry the effective type. On \<open>ledger1\<close>, by day, the
  maintenance-fee deduction of day 2 (effective type \<^verbatim>\<open>maintenance_fee\<close>, amount 2) is
  summed into the point of raw type \<^verbatim>\<open>withdrawal\<close>, whose total is 32, while the
  withdrawal sum of the overall metrics for the same window is 30.
\<close>

theorem trend_raw_type:
  "load_transaction_trend date_trunc_day ledger1 0 10 Day =
     [ \<lparr> period = 86400, tx_type = ''deposit'', total_amount = Some 100 \<rparr>,
       \<lparr> period = 172800, tx_type = ''withdrawal'', total_amount = Some 32 \<rparr> ]
   \<and> transaction_type_of fee_deduction = ''maintenance_fee''
   \<and> t_amount fee_deduction = 2
   \<and> withdrawal_value_ghs (load_general_metrics ledger1 0 10) = Some 30"
proof -
  have w: "filter (trend_where ledger1 0 10) (transactions ledger1) =
     [ \<lparr> t_id = 1, t_tx_type = ''deposit'', t_metadata = None, t_amount = 100,
         t_usd_amount = 10, t_updated_at = 86400, t_status = ''success'',
         t_provider_number = Some ''MTN'', t_investment_plan_id = None, t_plan_id = Some 10 \<rparr>,
       \<lparr> t_id = 2, t_tx_type = ''withdrawal'', t_metadata = None, t_amount = 30,
         t_usd_amount = 3, t_updated_at = 172800, t_status = ''success'',
         t_provider_number = Some ''MTN'', t_investment_plan_id = None, t_plan_id = Some 10 \<rparr>,
       fee_deduction ]"
    by (simp add: trend_where_def join_defs window_defs ledger1_tables fee_deduction_def)
  have "load_transaction_trend date_trunc_day ledger1 0 10 Day =
     [ \<lparr> period = 86400, tx_type = ''deposit'', total_amount = Some 100 \<rparr>,
       \<lparr> period = 172800, tx_type = ''withdrawal'', total_amount = Some 32 \<rparr> ]"
    unfolding load_transaction_trend_def w
    by (simp add: date_trunc_day_def window_defs sum_where_def fee_deduction_def)
  moreover have "transaction_type_of fee_deduction = ''maintenance_fee''"
    using fee_deduction_marked by (simp add: transaction_type_of_def)
  ultimately show ?thesis
    by (simp add: ledger1_general fee_deduction_def)
qed

end
